theory Spec2Isabelle
  imports Complex_Main "HOL-Library.Multiset" "HOL-Library.Sublist" "HOL-Library.AList"
    "HOL-Library.Char_ord" "HOL-Library.List_Lexorder"
begin

section \<open>Python values, exceptions and dictionaries\<close>

text \<open>
  The program is Python. An exception is its class name and its \<open>str()\<close>; a value that
  travels through the untyped configuration dictionaries is a \<open>pyval\<close>; a dictionary is
  an association list read with \<open>map_of\<close> (the first binding of a key is the live one).
  A computation that may raise returns \<open>pyexc + 'a\<close>, with \<open>Inl\<close> the raised exception.
  Only exceptions of class \<open>Exception\<close> are modelled: these are what the handlers of the
  program (\<open>except Exception\<close>) catch.
\<close>

datatype pyexc = PyExc (exc_class: string) (exc_str: string)

datatype pyval =
    PNone
  | PBool bool
  | PInt int
  | PFloat real
  | PStr string
  | PList "pyval list"
  | PDict "(string \<times> pyval) list"

type_synonym pydict = "(string \<times> pyval) list"

type_synonym path = string

fun truthy :: "pyval \<Rightarrow> bool" where
  "truthy PNone = False"
| "truthy (PBool b) = b"
| "truthy (PInt i) = (i \<noteq> 0)"
| "truthy (PFloat r) = (r \<noteq> 0)"
| "truthy (PStr s) = (s \<noteq> [])"
| "truthy (PList xs) = (xs \<noteq> [])"
| "truthy (PDict d) = (d \<noteq> [])"

definition py_bind :: "'e + 'a \<Rightarrow> ('a \<Rightarrow> 'e + 'b) \<Rightarrow> 'e + 'b" where
  "py_bind m f = (case m of Inl e \<Rightarrow> Inl e | Inr x \<Rightarrow> f x)"

definition quoted :: "string \<Rightarrow> string" where
  "quoted k = CHR 0x27 # k @ [CHR 0x27]"

text \<open>\<open>d.get(k, dflt)\<close>, \<open>d.get(k)\<close> and \<open>d[k]\<close>.\<close>

definition dict_get :: "pydict \<Rightarrow> string \<Rightarrow> pyval \<Rightarrow> pyval" where
  "dict_get d k dflt = (case map_of d k of None \<Rightarrow> dflt | Some v \<Rightarrow> v)"

definition dict_get0 :: "pydict \<Rightarrow> string \<Rightarrow> pyval" where
  "dict_get0 d k = dict_get d k PNone"

definition dict_item :: "pydict \<Rightarrow> string \<Rightarrow> pyexc + pyval" where
  "dict_item d k = (case map_of d k of None \<Rightarrow> Inl (PyExc ''KeyError'' (quoted k)) | Some v \<Rightarrow> Inr v)"

text \<open>\<open>Path(v)\<close> accepts a string and raises \<open>TypeError\<close> on anything else; \<open>a / b\<close> joins.\<close>

definition py_Path :: "pyval \<Rightarrow> pyexc + path" where
  "py_Path v = (case v of PStr s \<Rightarrow> Inr s
     | _ \<Rightarrow> Inl (PyExc ''TypeError'' ''expected str, bytes or os.PathLike object''))"

definition path_join :: "path \<Rightarrow> string \<Rightarrow> path" where
  "path_join a b = a @ ''/'' @ b"

text \<open>\<open>Path(d.get(k)) if d.get(k) else None\<close>.\<close>

definition opt_path :: "pyval \<Rightarrow> pyexc + path option" where
  "opt_path v = (if truthy v then py_bind (py_Path v) (\<lambda>p. Inr (Some p)) else Inr None)"

text \<open>
  \<open>s in v\<close> for a string \<open>s\<close>: membership in a list, substring of a string, key of a
  dictionary, \<open>TypeError\<close> otherwise. Iteration \<open>for m in v\<close> likewise.
\<close>

fun substr :: "string \<Rightarrow> string \<Rightarrow> bool" where
  "substr s [] = (s = [])"
| "substr s (c # cs) = (prefix s (c # cs) \<or> substr s cs)"

definition not_iterable :: pyexc where
  "not_iterable = PyExc ''TypeError'' ''argument is not iterable''"

fun py_in_str :: "string \<Rightarrow> pyval \<Rightarrow> pyexc + bool" where
  "py_in_str s (PList xs) = Inr (PStr s \<in> set xs)"
| "py_in_str s (PStr t) = Inr (substr s t)"
| "py_in_str s (PDict d) = Inr (s \<in> set (map fst d))"
| "py_in_str s v = Inl not_iterable"

fun py_iter :: "pyval \<Rightarrow> pyexc + pyval list" where
  "py_iter (PList xs) = Inr xs"
| "py_iter (PStr t) = Inr (map (\<lambda>c. PStr [c]) t)"
| "py_iter (PDict d) = Inr (map PStr (remdups (map fst d)))"
| "py_iter v = Inl not_iterable"

section \<open>The command line module (cli.py)\<close>

subsection \<open>Constants\<close>

definition PROPERTY_MODULES :: "string list" where
  "PROPERTY_MODULES = [''scf'', ''dos'', ''band'', ''elf'', ''cohp'', ''bader'', ''fermisurface'']"


subsection \<open>Pipelines and the environment\<close>

text \<open>
  The pipeline classes (\<open>RelaxPipeline\<close>, \<open>PropertiesPipeline\<close>,
  \<open>PhononPropertiesPipeline\<close>, \<open>MdPipeline\<close>) are used by cli.py through two operations
  only: construction from keyword arguments, and \<open>run()\<close>; after \<open>run()\<close> the relax
  pipeline's \<open>steps_data\<close> is read. A pipeline object is therefore what \<open>run()\<close> does
  (returns a boolean or raises) and the \<open>steps_data\<close> it leaves; a class is its
  constructor, which may raise. The file system, \<open>pathlib\<close>, float formatting and JSON
  loading are operations of the environment. Every theorem below holds for all
  environments.
\<close>

record pipeline =
  run :: "pyexc + bool"
  steps_data :: pydict

type_synonym pipeline_cls = "pydict \<Rightarrow> pyexc + pipeline"

record cli_env =
  mkdir :: "path \<Rightarrow> pyexc option"
  path_exists :: "path \<Rightarrow> bool"
  is_dir :: "path \<Rightarrow> bool"
  glob :: "path \<Rightarrow> string \<Rightarrow> path list"
  stem :: "path \<Rightarrow> string"
  cwd :: path
  format_g :: "real \<Rightarrow> string"
  load_json :: "path \<Rightarrow> pyexc + pyval"
  float_of_str :: "string \<Rightarrow> real option"
  float_of_int :: "int \<Rightarrow> real option"
  lower :: "string \<Rightarrow> string"
  split_exts :: "string \<Rightarrow> string list"
  RelaxPipeline :: pipeline_cls
  PropertiesPipeline :: pipeline_cls
  PhononPropertiesPipeline :: pipeline_cls
  MdPipeline :: pipeline_cls

text \<open>
  A call \<open>cls(k1=v1, ..., **kwargs)\<close>: Python raises \<open>TypeError\<close> before the callee runs
  when a key of \<open>kwargs\<close> repeats an explicit keyword.
\<close>

definition py_kwcall :: "pipeline_cls \<Rightarrow> pydict \<Rightarrow> pydict \<Rightarrow> pyexc + pipeline" where
  "py_kwcall cls explicit kwargs =
     (if \<exists>k \<in> set (map fst explicit). k \<in> set (map fst kwargs)
      then Inl (PyExc ''TypeError'' ''got multiple values for keyword argument'')
      else cls (explicit @ kwargs))"

definition format_pressure_dir :: "cli_env \<Rightarrow> real \<Rightarrow> string" where
  "format_pressure_dir env pressure = format_g env pressure @ ''_GPa''"

subsection \<open>Result records\<close>

text \<open>
  The dictionary a worker returns: keys \<open>structure\<close>, \<open>pressure\<close>, \<open>success\<close> and,
  on some paths, \<open>error\<close> (\<open>None\<close> here when the key is absent).
\<close>

record result =
  r_structure :: path
  r_pressure :: real
  r_success :: bool
  r_error :: "string option"

definition ok_result :: "path \<Rightarrow> real \<Rightarrow> bool \<Rightarrow> result" where
  "ok_result structure_file pressure s =
     \<lparr>r_structure = structure_file, r_pressure = pressure, r_success = s, r_error = None\<rparr>"

definition failed_result :: "path \<Rightarrow> real \<Rightarrow> string \<Rightarrow> result" where
  "failed_result structure_file pressure msg =
     \<lparr>r_structure = structure_file, r_pressure = pressure, r_success = False, r_error = Some msg\<rparr>"

subsection \<open>\<open>_run_single_pipeline\<close>\<close>

text \<open>The \<open>try\<close> block, and the function with its handler.\<close>

definition run_single_try ::
  "cli_env \<Rightarrow> pipeline_cls \<Rightarrow> path \<Rightarrow> path \<Rightarrow> pydict \<Rightarrow> real \<Rightarrow> pyexc + bool" where
  "run_single_try env pipeline_cls structure_file work_dir pipeline_kwargs pressure =
     (case mkdir env work_dir of
        Some exc \<Rightarrow> Inl exc
      | None \<Rightarrow>
          py_bind (py_kwcall pipeline_cls
                     [(''structure_file'', PStr structure_file),
                      (''work_dir'', PStr work_dir),
                      (''pressure'', PFloat pressure)] pipeline_kwargs)
                  (\<lambda>pipeline. run pipeline))"

definition run_single_pipeline ::
  "cli_env \<Rightarrow> pipeline_cls \<Rightarrow> path \<Rightarrow> path \<Rightarrow> pydict \<Rightarrow> real \<Rightarrow> result" where
  "run_single_pipeline env pipeline_cls structure_file work_dir pipeline_kwargs pressure =
     (case run_single_try env pipeline_cls structure_file work_dir pipeline_kwargs pressure of
        Inr s \<Rightarrow> ok_result structure_file pressure s
      | Inl exc \<Rightarrow> failed_result structure_file pressure (exc_str exc))"

subsection \<open>The stage runners of a combo task\<close>

text \<open>
  \<open>_run_relax_pipeline\<close> builds the relax pipeline from the common configuration, runs
  it and returns its outcome with the paths of the structures it left.
\<close>

record relax_res =
  rr_success :: bool
  rr_relaxed :: path
  rr_primitive :: "path option"
  rr_conventional :: "path option"

definition run_relax_pipeline ::
  "cli_env \<Rightarrow> path \<Rightarrow> path \<Rightarrow> pydict \<Rightarrow> real \<Rightarrow> pyexc + relax_res" where
  "run_relax_pipeline env structure_file work_dir cfg pressure =
     py_bind (RelaxPipeline env
        [(''structure_file'', PStr structure_file),
         (''work_dir'', PStr work_dir),
         (''kspacing'', dict_get cfg ''kspacing'' (PFloat (2 / 10))),
         (''encut'', dict_get0 cfg ''encut''),
         (''potcar_dir'', dict_get0 cfg ''potcar_dir''),
         (''potcar_type'', dict_get cfg ''potcar_type'' (PStr ''PBE'')),
         (''queue_system'', dict_get cfg ''job_system'' (PStr ''bash'')),
         (''mpi_procs'', dict_get0 cfg ''mpi_procs''),
         (''prepare_only'', dict_get cfg ''prepare_only'' (PBool True)),
         (''pressure'', PFloat pressure)])
       (\<lambda>pipeline. py_bind (run pipeline)
       (\<lambda>ok. py_bind (opt_path (dict_get0 (steps_data pipeline) ''primitive_structure''))
       (\<lambda>prim. py_bind (opt_path (dict_get0 (steps_data pipeline) ''conventional_structure''))
       (\<lambda>conv. Inr \<lparr>rr_success = ok,
                      rr_relaxed = path_join work_dir ''POSCAR_relaxed'',
                      rr_primitive = prim,
                      rr_conventional = conv\<rparr>))))"

definition run_phonon_pipeline ::
  "cli_env \<Rightarrow> path \<Rightarrow> path \<Rightarrow> pydict \<Rightarrow> real \<Rightarrow> pyexc + bool" where
  "run_phonon_pipeline env structure_file work_dir cfg pressure =
     py_bind (PhononPropertiesPipeline env
        [(''structure_file'', PStr structure_file),
         (''work_dir'', PStr work_dir),
         (''supercell'', dict_get cfg ''supercell'' (PList [PInt 2, PInt 2, PInt 2])),
         (''method'', dict_get cfg ''method'' (PStr ''disp'')),
         (''kspacing'', dict_get cfg ''kspacing'' (PFloat (3 / 10))),
         (''encut'', dict_get0 cfg ''encut''),
         (''queue_system'', dict_get cfg ''job_system'' (PStr ''bash'')),
         (''mpi_procs'', dict_get0 cfg ''mpi_procs''),
         (''potcar_dir'', dict_get0 cfg ''potcar_dir''),
         (''potcar_type'', dict_get cfg ''potcar_type'' (PStr ''PBE'')),
         (''prepare_only'', dict_get cfg ''prepare_only'' (PBool True)),
         (''include_relax'', PBool False),
         (''pressure'', PFloat pressure),
         (''checkpoint_file'', PStr (path_join work_dir ''phonon_checkpoint.json'')),
         (''report_file'', PStr (path_join work_dir ''phonon_report.txt''))])
       (\<lambda>pipeline. run pipeline)"

definition run_properties_pipeline ::
  "cli_env \<Rightarrow> path \<Rightarrow> path \<Rightarrow> string list \<Rightarrow> pydict \<Rightarrow> real \<Rightarrow> pyexc + bool" where
  "run_properties_pipeline env structure_file work_dir modules cfg pressure =
     py_bind (PropertiesPipeline env
        [(''structure_file'', PStr structure_file),
         (''work_dir'', PStr work_dir),
         (''kspacing'', dict_get cfg ''kspacing'' (PFloat (2 / 10))),
         (''encut'', dict_get0 cfg ''encut''),
         (''include_elf'', PBool (''elf'' \<in> set modules)),
         (''include_cohp'', PBool (''cohp'' \<in> set modules)),
         (''include_bader'', PBool (''bader'' \<in> set modules)),
         (''include_fermi'', PBool (''fermisurface'' \<in> set modules)),
         (''plot_dos_type'', dict_get cfg ''dos_type'' (PStr ''element'')),
         (''queue_system'', dict_get cfg ''job_system'' (PStr ''bash'')),
         (''mpi_procs'', dict_get0 cfg ''mpi_procs''),
         (''potcar_dir'', dict_get0 cfg ''potcar_dir''),
         (''potcar_type'', dict_get cfg ''potcar_type'' (PStr ''PBE'')),
         (''prepare_only'', dict_get cfg ''prepare_only'' (PBool True)),
         (''requested_steps'', PList (map PStr modules)),
         (''run_relax'', PBool False),
         (''pressure'', PFloat pressure),
         (''checkpoint_file'', PStr (path_join work_dir ''electronic_checkpoint.json'')),
         (''report_file'', PStr (path_join work_dir ''electronic_report.txt''))])
       (\<lambda>pipeline. run pipeline)"

definition run_md_pipeline ::
  "cli_env \<Rightarrow> path \<Rightarrow> path \<Rightarrow> pydict \<Rightarrow> real \<Rightarrow> pyexc + bool" where
  "run_md_pipeline env structure_file work_dir cfg pressure =
     py_bind (MdPipeline env
        [(''structure_file'', PStr structure_file),
         (''work_dir'', PStr work_dir),
         (''potim'', dict_get cfg ''potim'' (PFloat 1)),
         (''tebeg'', dict_get cfg ''tebeg'' (PFloat 300)),
         (''teend'', dict_get cfg ''teend'' (PFloat 300)),
         (''nsw'', dict_get cfg ''nsw'' (PInt 200)),
         (''kspacing'', dict_get cfg ''kspacing'' (PFloat (2 / 10))),
         (''encut'', dict_get0 cfg ''encut''),
         (''potcar_dir'', dict_get0 cfg ''potcar_dir''),
         (''potcar_type'', dict_get cfg ''potcar_type'' (PStr ''PBE'')),
         (''queue_system'', dict_get cfg ''job_system'' (PStr ''bash'')),
         (''mpi_procs'', dict_get0 cfg ''mpi_procs''),
         (''prepare_only'', dict_get cfg ''prepare_only'' (PBool True)),
         (''include_relax'', PBool False),
         (''pressure'', PFloat pressure),
         (''checkpoint_file'', PStr (path_join work_dir ''md_checkpoint.json'')),
         (''report_file'', PStr (path_join work_dir ''md_report.txt''))])
       (\<lambda>pipeline. run pipeline)"

subsection \<open>Executors: \<open>ThreadPoolExecutor\<close> and \<open>as_completed\<close>\<close>

text \<open>
  A pool of \<open>w\<close> workers takes queued work in submission order while a worker is free;
  which running piece of work finishes next is not determined by the program, so it is
  read from a list of choices (the head, modulo the number of running pieces; the first
  running piece when the list is exhausted). The function returns the work in the
  order it finished. With no worker nothing runs; the library refuses such a pool,
  and the program never asks for one.
\<close>

definition choice :: "nat list \<Rightarrow> nat \<Rightarrow> nat" where
  "choice cs n = (case cs of [] \<Rightarrow> 0 | c # _ \<Rightarrow> c mod n)"

definition remove_nth :: "nat \<Rightarrow> 'a list \<Rightarrow> 'a list" where
  "remove_nth i xs = take i xs @ drop (Suc i) xs"

function thread_pool :: "nat \<Rightarrow> nat list \<Rightarrow> 'a list \<Rightarrow> 'a list \<Rightarrow> 'a list" where
  "thread_pool w cs queued running =
     (if queued \<noteq> [] \<and> length running < w
      then thread_pool w cs (tl queued) (running @ [hd queued])
      else if running = [] then []
      else running ! choice cs (length running)
           # thread_pool w (tl cs) queued (remove_nth (choice cs (length running)) running))"
  by pat_completeness auto
termination
proof (relation "measure (\<lambda>(w, cs, queued, running). 2 * length queued + length running)",
    goal_cases)
  case 1
  show ?case by simp
next
  case (2 w cs queued running)
  then show ?case by (cases queued) auto
next
  case (3 w cs queued running)
  then have "choice cs (length running) < length running"
    by (auto simp: choice_def split: list.splits)
  then show ?case by (auto simp: remove_nth_def)
qed

text \<open>
  \<open>as_completed\<close> yields the futures that are already finished in no particular order
  and the others as they finish: the order of its yields is again read from a list of
  choices, so that every permutation of the futures is a possible order.
\<close>

function pick_order :: "nat list \<Rightarrow> 'a list \<Rightarrow> 'a list" where
  "pick_order cs xs =
     (if xs = [] then []
      else xs ! choice cs (length xs)
           # pick_order (tl cs) (remove_nth (choice cs (length xs)) xs))"
  by pat_completeness auto
termination
proof (relation "measure (\<lambda>(cs, xs). length xs)", goal_cases)
  case 1
  show ?case by simp
next
  case (2 cs xs)
  then have "choice cs (length xs) < length xs"
    by (auto simp: choice_def split: list.splits)
  then show ?case by (auto simp: remove_nth_def)
qed

record schedule =
  finish_order :: "nat list"
  yield_order :: "nat list"

definition as_completed :: "nat \<Rightarrow> schedule \<Rightarrow> 'a list \<Rightarrow> 'a list" where
  "as_completed max_workers sch futures =
     pick_order (yield_order sch) (thread_pool max_workers (finish_order sch) futures [])"

subsection \<open>\<open>_run_combo_pipeline\<close>\<close>

definition combo_cfg_common :: "pyval \<Rightarrow> pyexc + pydict" where
  "combo_cfg_common config =
     (case config of
        PDict c \<Rightarrow>
          py_bind (if truthy (dict_get0 c ''potcar_dir'')
                   then py_bind (dict_item c ''potcar_dir'')
                          (\<lambda>v. py_bind (py_Path v) (\<lambda>p. Inr (PStr p)))
                   else Inr PNone)
            (\<lambda>potcar_dir. Inr
               [(''kspacing'', dict_get c ''kspacing'' (PFloat (2 / 10))),
                (''encut'', dict_get0 c ''encut''),
                (''potcar_dir'', potcar_dir),
                (''potcar_type'', dict_get c ''potcar_type'' (PStr ''PBE'')),
                (''job_system'', dict_get c ''job_system'' (PStr ''bash'')),
                (''mpi_procs'', dict_get0 c ''mpi_procs''),
                (''prepare_only'', PBool (\<not> truthy (dict_get c ''submit'' (PBool False))))])
      | _ \<Rightarrow> Inl (PyExc ''AttributeError'' ''object has no attribute get''))"

text \<open>
  \<open>[m for m in modules if m in PROPERTY_MODULES]\<close>: \<open>PROPERTY_MODULES\<close> is a set, so
  the test hashes \<open>m\<close> and raises on a list or a dictionary.
\<close>

fun property_filter :: "pyval list \<Rightarrow> pyexc + string list" where
  "property_filter [] = Inr []"
| "property_filter (PList _ # ms) = Inl (PyExc ''TypeError'' ''unhashable type: list'')"
| "property_filter (PDict _ # ms) = Inl (PyExc ''TypeError'' ''unhashable type: dict'')"
| "property_filter (PStr s # ms) =
     py_bind (property_filter ms)
       (\<lambda>r. Inr (if s \<in> set PROPERTY_MODULES then s # r else r))"
| "property_filter (_ # ms) = property_filter ms"

definition combo_prelude ::
  "cli_env \<Rightarrow> pyval \<Rightarrow> path \<Rightarrow> pyval \<Rightarrow> pyexc + (pydict \<times> bool \<times> string list \<times> bool)" where
  "combo_prelude env modules work_dir config =
     (case mkdir env work_dir of
        Some exc \<Rightarrow> Inl exc
      | None \<Rightarrow>
          py_bind (combo_cfg_common config) (\<lambda>cfg_common.
          py_bind (py_in_str ''phonon'' modules) (\<lambda>need_phonon.
          py_bind (py_bind (py_iter modules) property_filter) (\<lambda>property_modules.
          py_bind (py_in_str ''md'' modules) (\<lambda>need_md.
            Inr (cfg_common, need_phonon, property_modules, need_md))))))"

datatype group = Phonon | Properties | Md

text \<open>The downstream groups in the order in which they are submitted.\<close>

definition requested_groups :: "bool \<Rightarrow> string list \<Rightarrow> bool \<Rightarrow> group list" where
  "requested_groups need_phonon property_modules need_md =
     (if need_phonon then [Phonon] else [])
     @ (if property_modules \<noteq> [] then [Properties] else [])
     @ (if need_md then [Md] else [])"

definition run_group ::
  "cli_env \<Rightarrow> path \<Rightarrow> path \<Rightarrow> string list \<Rightarrow> pydict \<Rightarrow> real \<Rightarrow> group \<Rightarrow> pyexc + bool" where
  "run_group env source_structure work_dir property_modules cfg pressure g =
     (case g of
        Phonon \<Rightarrow> run_phonon_pipeline env source_structure work_dir cfg pressure
      | Properties \<Rightarrow>
          run_properties_pipeline env source_structure work_dir property_modules cfg pressure
      | Md \<Rightarrow> run_md_pipeline env source_structure work_dir cfg pressure)"

text \<open>
  The loop over \<open>as_completed(futures)\<close>: \<open>f.result()\<close> returns the group's boolean or
  raises the exception the group raised.
\<close>

fun collect :: "(pyexc + bool) list \<Rightarrow> bool \<Rightarrow> pyexc + bool" where
  "collect [] success = Inr success"
| "collect (Inl exc # fs) success = Inl exc"
| "collect (Inr b # fs) success = collect fs (if \<not> b then False else success)"

text \<open>
  The calls of the stage runners a combo task makes, each with the structure it was
  given: the observable the claims about launching are stated on. The executor's
  \<open>with\<close> block waits for every submitted group before the function returns or an
  exception leaves it, and nothing cancels a future, so each submitted group runs to
  its end.
\<close>

datatype call = RelaxCall path | GroupCall group path

definition run_combo_try ::
  "cli_env \<Rightarrow> schedule \<Rightarrow> pyval \<Rightarrow> path \<Rightarrow> path \<Rightarrow> real \<Rightarrow> pyval
     \<Rightarrow> (pyexc + result) \<times> call list" where
  "run_combo_try env sch modules structure_file work_dir pressure config =
     (case combo_prelude env modules work_dir config of
        Inl exc \<Rightarrow> (Inl exc, [])
      | Inr (cfg_common, need_phonon, property_modules, need_md) \<Rightarrow>
          (case run_relax_pipeline env structure_file work_dir cfg_common pressure of
             Inl exc \<Rightarrow> (Inl exc, [RelaxCall structure_file])
           | Inr relax_res \<Rightarrow>
               if \<not> rr_success relax_res
               then (Inr (failed_result structure_file pressure ''relax failed''),
                     [RelaxCall structure_file])
               else if truthy (dict_get cfg_common ''prepare_only'' (PBool True))
               then (Inr (ok_result structure_file pressure True), [RelaxCall structure_file])
               else
                 (let relaxed_poscar =
                        (case rr_primitive relax_res of
                           Some prim \<Rightarrow> prim
                         | None \<Rightarrow> rr_relaxed relax_res);
                      source_structure =
                        (if path_exists env relaxed_poscar then relaxed_poscar
                         else structure_file);
                      futures = requested_groups need_phonon property_modules need_md;
                      outcomes =
                        map (run_group env source_structure work_dir property_modules
                               cfg_common pressure) futures
                  in ((case collect (as_completed 3 sch outcomes) True of
                         Inl exc \<Rightarrow> Inl exc
                       | Inr success \<Rightarrow>
                           if \<not> success
                           then Inr (failed_result structure_file pressure
                                       ''sub pipeline failed'')
                           else Inr (ok_result structure_file pressure True)),
                      RelaxCall structure_file
                      # map (\<lambda>g. GroupCall g source_structure) futures))))"

text \<open>The \<open>try\<close> block with its handler, and the function as the program calls it.\<close>

definition run_combo_traced ::
  "cli_env \<Rightarrow> schedule \<Rightarrow> pyval \<Rightarrow> path \<Rightarrow> path \<Rightarrow> real \<Rightarrow> pyval \<Rightarrow> result \<times> call list" where
  "run_combo_traced env sch modules structure_file work_dir pressure config =
     (case run_combo_try env sch modules structure_file work_dir pressure config of
        (Inr res, calls) \<Rightarrow> (res, calls)
      | (Inl exc, calls) \<Rightarrow> (failed_result structure_file pressure (exc_str exc), calls))"

definition run_combo_pipeline ::
  "cli_env \<Rightarrow> schedule \<Rightarrow> pyval \<Rightarrow> path \<Rightarrow> path \<Rightarrow> real \<Rightarrow> pyval \<Rightarrow> result" where
  "run_combo_pipeline env sch modules structure_file work_dir pressure config =
     fst (run_combo_traced env sch modules structure_file work_dir pressure config)"

subsection \<open>\<open>_run_matrix_tasks\<close>\<close>

text \<open>
  The schedule of a matrix run: the order of the outer pool, and for the future with
  index \<open>i\<close> the order of the pool inside its combo task.
\<close>

record matrix_schedule =
  outer :: schedule
  inner :: "nat \<Rightarrow> schedule"

definition matrix_tasks :: "path list \<Rightarrow> real list \<Rightarrow> (path \<times> real) list" where
  "matrix_tasks structures pressures =
     concat (map (\<lambda>s. map (\<lambda>p. (s, p)) pressures) structures)"

text \<open>\<open>work_root / structure_file.stem / format_pressure_dir(pressure)\<close>.\<close>

definition task_work_dir :: "cli_env \<Rightarrow> path \<Rightarrow> path \<Rightarrow> real \<Rightarrow> path" where
  "task_work_dir env work_root structure_file pressure =
     path_join (path_join work_root (stem env structure_file)) (format_pressure_dir env pressure)"

text \<open>
  One submission. A future is what its worker returns or raises. The class is \<open>None\<close>
  in the call \<open>command_combo\<close> makes; a worker of \<open>_run_single_pipeline\<close> started with
  it would raise from its own handler (\<open>pipeline_cls.__name__\<close>).
\<close>

definition submit_task ::
  "cli_env \<Rightarrow> matrix_schedule \<Rightarrow> path \<Rightarrow> pipeline_cls option \<Rightarrow> pydict \<Rightarrow> bool \<Rightarrow> nat
     \<Rightarrow> path \<times> real \<Rightarrow> pyexc + (pyexc + result)" where
  "submit_task env sch work_root pipeline_class pipeline_kwargs combo_mode i task =
     (case task of (structure_file, pressure) \<Rightarrow>
        (let work_dir = task_work_dir env work_root structure_file pressure
         in if combo_mode
            then py_bind (dict_item pipeline_kwargs ''modules'') (\<lambda>modules.
                 py_bind (dict_item pipeline_kwargs ''config'') (\<lambda>config.
                   Inr (Inr (run_combo_pipeline env (inner sch i) modules structure_file
                               work_dir pressure config))))
            else (case pipeline_class of
                    None \<Rightarrow> Inr (Inl (PyExc ''AttributeError''
                                        ''NoneType object has no attribute __name__''))
                  | Some cls \<Rightarrow> Inr (Inr (run_single_pipeline env cls structure_file work_dir
                                             pipeline_kwargs pressure)))))"

text \<open>The submission loop: an exception of the main thread (a missing key) ends it.\<close>

fun submit_all ::
  "cli_env \<Rightarrow> matrix_schedule \<Rightarrow> path \<Rightarrow> pipeline_cls option \<Rightarrow> pydict \<Rightarrow> bool \<Rightarrow> nat
     \<Rightarrow> (path \<times> real) list \<Rightarrow> pyexc + (pyexc + result) list" where
  "submit_all env sch work_root pipeline_class pipeline_kwargs combo_mode i [] = Inr []"
| "submit_all env sch work_root pipeline_class pipeline_kwargs combo_mode i (task # tasks) =
     py_bind (submit_task env sch work_root pipeline_class pipeline_kwargs combo_mode i task)
       (\<lambda>future.
          py_bind (submit_all env sch work_root pipeline_class pipeline_kwargs combo_mode
                     (Suc i) tasks)
            (\<lambda>futures. Inr (future # futures)))"

text \<open>The collection loop: \<open>fut.result()\<close> raises what the worker raised.\<close>

fun gather :: "(pyexc + result) list \<Rightarrow> pyexc + result list" where
  "gather [] = Inr []"
| "gather (Inl exc # fs) = Inl exc"
| "gather (Inr res # fs) = py_bind (gather fs) (\<lambda>results. Inr (res # results))"

text \<open>
  \<open>tasks_limit\<close> is an integer in every call the program makes; a number read from a
  JSON file may be a float, and a pool of \<open>x\<close> workers then starts up to \<open>\<lceil>x\<rceil>\<close> threads.
  \<open>pressure_first\<close> is accepted and never read.
\<close>

definition run_matrix_tasks ::
  "cli_env \<Rightarrow> matrix_schedule \<Rightarrow> path list \<Rightarrow> real list \<Rightarrow> path \<Rightarrow> pipeline_cls option
     \<Rightarrow> pydict \<Rightarrow> real \<Rightarrow> bool \<Rightarrow> bool \<Rightarrow> pyexc + result list" where
  "run_matrix_tasks env sch structures pressures work_root pipeline_class pipeline_kwargs
       tasks_limit pressure_first combo_mode =
     (let tasks = matrix_tasks structures pressures;
          max_workers = max tasks_limit 1
      in py_bind (submit_all env sch work_root pipeline_class pipeline_kwargs combo_mode 0 tasks)
           (\<lambda>future_map.
              gather (as_completed (nat \<lceil>max_workers\<rceil>) (outer sch) future_map)))"

subsection \<open>Reading the invocation\<close>







text \<open>
  The numeric value of a number (a \<open>bool\<close> is an \<open>int\<close>), as comparisons read it, and
  \<open>float(v)\<close>. The conversion of an \<open>int\<close> to a float is an operation of the
  environment: it rounds, and raises \<open>OverflowError\<close> (\<open>None\<close>) for an integer too large
  for a float.
\<close>

definition py_num :: "pyval \<Rightarrow> real option" where
  "py_num v = (case v of
      PInt i \<Rightarrow> Some (of_int i)
    | PBool b \<Rightarrow> Some (if b then 1 else 0)
    | PFloat r \<Rightarrow> Some r
    | _ \<Rightarrow> None)"












subsection \<open>\<open>command_relax\<close>\<close>










subsection \<open>\<open>command_combo\<close>\<close>






section \<open>Pipeline utilities (pipelines/utils.py)\<close>

subsection \<open>\<open>kspacing_to_mesh\<close>\<close>

text \<open>
  Reading the file and the string operations of Python (\<open>splitlines\<close>, \<open>split\<close>,
  \<open>float\<close>) are operations of the environment; the theorems hold for all of them.
  Python's floats are idealised as real numbers. What floats add are further exceptions
  (\<open>math.ceil\<close> of an infinity or a NaN raises), and these are raised inside the same
  \<open>try\<close> block as the ones modelled.
\<close>

record text_env =
  read_text :: "path \<Rightarrow> pyexc + string"
  splitlines :: "string \<Rightarrow> string list"
  split_ws :: "string \<Rightarrow> string list"
  to_float :: "string \<Rightarrow> real option"

definition index_error :: pyexc where
  "index_error = PyExc ''IndexError'' ''list index out of range''"

definition str_float :: "text_env \<Rightarrow> string \<Rightarrow> pyexc + real" where
  "str_float env s =
     (case to_float env s of
        Some x \<Rightarrow> Inr x
      | None \<Rightarrow> Inl (PyExc ''ValueError'' ''could not convert string to float''))"

fun str_floats :: "text_env \<Rightarrow> string list \<Rightarrow> pyexc + real list" where
  "str_floats env [] = Inr []"
| "str_floats env (s # ss) =
     py_bind (str_float env s) (\<lambda>x. py_bind (str_floats env ss) (\<lambda>xs. Inr (x # xs)))"

text \<open>\<open>[float(x) for x in line.split()[:3]]\<close>.\<close>

definition vector_of_line :: "text_env \<Rightarrow> string \<Rightarrow> pyexc + real list" where
  "vector_of_line env line = str_floats env (take 3 (split_ws env line))"

text \<open>The nested helpers \<open>cross\<close>, \<open>dot\<close> and \<open>norm\<close>; they index their arguments at 0, 1, 2.\<close>

fun cross :: "real list \<Rightarrow> real list \<Rightarrow> pyexc + real list" where
  "cross (u0 # u1 # u2 # us) (v0 # v1 # v2 # vs) =
     Inr [u1 * v2 - u2 * v1, u2 * v0 - u0 * v2, u0 * v1 - u1 * v0]"
| "cross u v = Inl index_error"

fun dot :: "real list \<Rightarrow> real list \<Rightarrow> pyexc + real" where
  "dot (u0 # u1 # u2 # us) (v0 # v1 # v2 # vs) = Inr (u0 * v0 + u1 * v1 + u2 * v2)"
| "dot u v = Inl index_error"

definition norm3 :: "real list \<Rightarrow> pyexc + real" where
  "norm3 u = py_bind (dot u u) (\<lambda>d. Inr (sqrt d))"

text \<open>
  The \<open>try\<close> block up to the scaled lattice vectors, the volume, and one mesh number
  \<open>max(1, math.ceil(norm(b) / kspacing))\<close>.
\<close>

definition parse_cell :: "text_env \<Rightarrow> path \<Rightarrow> pyexc + (real list \<times> real list \<times> real list)" where
  "parse_cell env poscar_file =
     py_bind (read_text env poscar_file) (\<lambda>text.
       let lines = splitlines env text
       in if length lines < 5 then Inl (PyExc ''ValueError'' ''POSCAR has too few lines'')
          else
            py_bind (case split_ws env (lines ! 1) of
                       [] \<Rightarrow> Inl index_error
                     | s # _ \<Rightarrow> str_float env s) (\<lambda>scale.
            py_bind (vector_of_line env (lines ! 2)) (\<lambda>a1.
            py_bind (vector_of_line env (lines ! 3)) (\<lambda>a2.
            py_bind (vector_of_line env (lines ! 4)) (\<lambda>a3.
              Inr (map (\<lambda>v. v * scale) a1, map (\<lambda>v. v * scale) a2,
                   map (\<lambda>v. v * scale) a3))))))"

definition cell_volume :: "real list \<Rightarrow> real list \<Rightarrow> real list \<Rightarrow> pyexc + real" where
  "cell_volume a1 a2 a3 = py_bind (cross a2 a3) (\<lambda>c. dot a1 c)"

definition mesh_number :: "real \<Rightarrow> real list \<Rightarrow> real \<Rightarrow> pyexc + int" where
  "mesh_number factor c kspacing =
     py_bind (norm3 (map (\<lambda>x. x * factor) c)) (\<lambda>n.
       if kspacing = 0 then Inl (PyExc ''ZeroDivisionError'' ''float division by zero'')
       else Inr (max 1 \<lceil>n / kspacing\<rceil>))"

definition mesh_try :: "text_env \<Rightarrow> path \<Rightarrow> real \<Rightarrow> pyexc + (int \<times> int \<times> int)" where
  "mesh_try env poscar_file kspacing =
     py_bind (parse_cell env poscar_file) (\<lambda>(a1, a2, a3).
     py_bind (cell_volume a1 a2 a3) (\<lambda>vol.
       if \<bar>vol\<bar> < 1 / 10 ^ 8 then Inl (PyExc ''ValueError'' ''cell volume is abnormal'')
       else
         let factor = 2 * pi / vol
         in py_bind (cross a2 a3) (\<lambda>c1.
            py_bind (cross a3 a1) (\<lambda>c2.
            py_bind (cross a1 a2) (\<lambda>c3.
            py_bind (mesh_number factor c1 kspacing) (\<lambda>n1.
            py_bind (mesh_number factor c2 kspacing) (\<lambda>n2.
            py_bind (mesh_number factor c3 kspacing) (\<lambda>n3.
              Inr (n1, n2, n3)))))))))"

definition kspacing_to_mesh :: "text_env \<Rightarrow> path \<Rightarrow> real \<Rightarrow> int \<times> int \<times> int" where
  "kspacing_to_mesh env poscar_file kspacing =
     (case mesh_try env poscar_file kspacing of
        Inr mesh \<Rightarrow> mesh
      | Inl exc \<Rightarrow> (1, 1, 1))"

subsection \<open>\<open>generate_summary_report\<close>\<close>

text \<open>
  The report is written line by line; a line is given by its kind and the values
  formatted into it (its fixed text is Chinese in the source). The function returns the
  exception that ended it, if any, and the lines written so far: the file is opened for
  writing first, so these lines are what the file holds afterwards.
\<close>

datatype report_line =
    Rule
  | Title
  | Blank
  | TotalCount nat
  | SuccessCount nat
  | FailedCount int
  | Details
  | Entry nat pyval
  | WorkDir pyval
  | Status bool
  | Energy real
  | ErrorText pyval

text \<open>\<open>f"{v:.6f}"\<close> for a value that is not a number.\<close>

definition format_error :: "pyval \<Rightarrow> pyexc" where
  "format_error v = (case v of
      PStr s \<Rightarrow> PyExc ''ValueError'' ''Unknown format code f for object of type str''
    | _ \<Rightarrow> PyExc ''TypeError'' ''unsupported format string passed to __format__'')"

definition report_entry :: "nat \<Rightarrow> pydict \<Rightarrow> report_line list \<Rightarrow> pyexc option \<times> report_line list" where
  "report_entry i result written =
     (case dict_item result ''structure_name'' of
        Inl exc \<Rightarrow> (Some exc, written)
      | Inr name \<Rightarrow>
          (case dict_item result ''work_dir'' of
             Inl exc \<Rightarrow> (Some exc, written @ [Entry i name])
           | Inr work_dir \<Rightarrow>
               (let lines = written @ [Entry i name, WorkDir work_dir,
                                       Status (truthy (dict_get0 result ''success''))]
                in if truthy (dict_get0 result ''energy'')
                   then (case py_num (dict_get0 result ''energy'') of
                           None \<Rightarrow> (Some (format_error (dict_get0 result ''energy'')), lines)
                         | Some e \<Rightarrow>
                             (None, lines @ [Energy e]
                                    @ (if truthy (dict_get0 result ''error'')
                                       then [ErrorText (dict_get0 result ''error'')] else [])
                                    @ [Blank]))
                   else (None, lines
                               @ (if truthy (dict_get0 result ''error'')
                                  then [ErrorText (dict_get0 result ''error'')] else [])
                               @ [Blank]))))"

fun report_entries ::
  "nat \<Rightarrow> pydict list \<Rightarrow> report_line list \<Rightarrow> pyexc option \<times> report_line list" where
  "report_entries i [] written = (None, written)"
| "report_entries i (result # results) written =
     (case report_entry i result written of
        (Some exc, lines) \<Rightarrow> (Some exc, lines)
      | (None, lines) \<Rightarrow> report_entries (Suc i) results lines)"

definition generate_summary_report :: "pydict list \<Rightarrow> pyexc option \<times> report_line list" where
  "generate_summary_report pipelines_results =
     (let total = length pipelines_results;
          success = length (filter (\<lambda>r. truthy (dict_get0 r ''success'')) pipelines_results);
          failed = int total - int success
      in report_entries 1 pipelines_results
           [Rule, Title, Rule, Blank, TotalCount total, SuccessCount success, FailedCount failed, Blank,
            Rule, Details, Rule, Blank])"

section \<open>The step state machine (pipelines/base.py)\<close>

text \<open>
  Modelled from the spec: \<open>BasePipeline.run\<close> and \<open>StepStatus\<close>. The file
  pipelines/base.py is not among the sources (pipelines/__init__.py only imports from
  it), so \<open>run()\<close> follows the words of the specification: for each step in order, if
  the checkpoint says \<open>SUCCESS\<close> the step is marked \<open>SKIPPED\<close>; otherwise it is set
  \<open>RUNNING\<close>, its executor is invoked, it is set \<open>SUCCESS\<close> or \<open>FAILED\<close> by the
  executor's boolean result (an executor that raises counts as \<open>FAILED\<close>), and the
  status is persisted in the checkpoint; the first \<open>FAILED\<close> step stops the run, which
  returns \<open>False\<close>; when all steps are \<open>SUCCESS\<close> or \<open>SKIPPED\<close> it returns \<open>True\<close>.
  The executors act on a world \<open>'w\<close>; \<open>executed\<close> lists the executor invocations.
\<close>

datatype StepStatus = PENDING | RUNNING | SUCCESS | FAILED | SKIPPED

record 'w pipeline_state =
  checkpoint :: "string \<rightharpoonup> StepStatus"
  statuses :: "string \<rightharpoonup> StepStatus"
  world :: 'w
  executed :: "string list"

type_synonym 'w executor = "string \<Rightarrow> 'w \<Rightarrow> (pyexc + bool) \<times> 'w"

fun base_run :: "'w executor \<Rightarrow> string list \<Rightarrow> 'w pipeline_state \<Rightarrow> bool \<times> 'w pipeline_state" where
  "base_run exec [] st = (True, st)"
| "base_run exec (step # steps) st =
     (if checkpoint st step = Some SUCCESS
      then base_run exec steps (st\<lparr>statuses := (statuses st)(step \<mapsto> SKIPPED)\<rparr>)
      else (case exec step (world st) of
              (r, w) \<Rightarrow>
                if r = Inr True
                then base_run exec steps
                       (st\<lparr>checkpoint := (checkpoint st)(step \<mapsto> SUCCESS),
                           statuses := (statuses st)(step \<mapsto> SUCCESS),
                           world := w,
                           executed := executed st @ [step]\<rparr>)
                else (False,
                      st\<lparr>checkpoint := (checkpoint st)(step \<mapsto> FAILED),
                         statuses := (statuses st)(step \<mapsto> FAILED),
                         world := w,
                         executed := executed st @ [step]\<rparr>)))"

section \<open>The molecular dynamics pipeline (pipelines/md.py)\<close>



text \<open>The attributes of an \<open>MdPipeline\<close> object that its methods read.\<close>

record md_pipeline =
  md_structure_file :: path
  md_work_dir :: path
  md_kspacing :: real
  md_queue_system :: string
  md_potcar_map :: pydict
  md_custom_steps :: "string list option"
  md_prepare_only :: bool







definition get_steps :: "md_pipeline \<Rightarrow> string list" where
  "get_steps self = (case md_custom_steps self of
      Some steps \<Rightarrow> if steps \<noteq> [] then steps else [''md'']
    | None \<Rightarrow> [''md''])"







text \<open>
  \<open>_normalize_steps\<close>, which \<open>__init__\<close> applies to the steps the caller asks for
  (\<open>strip\<close> and \<open>lower\<close> of Python are a parameter): only \<open>md\<close> is allowed.
\<close>

fun normalize_loop :: "(string \<Rightarrow> string) \<Rightarrow> string list \<Rightarrow> string list \<Rightarrow> string list" where
  "normalize_loop strip_lower [] normalized = normalized"
| "normalize_loop strip_lower (step # steps) normalized =
     normalize_loop strip_lower steps
       (if strip_lower step \<in> set [''md''] \<and> strip_lower step \<notin> set normalized
        then normalized @ [strip_lower step] else normalized)"

definition normalize_steps :: "(string \<Rightarrow> string) \<Rightarrow> string list option \<Rightarrow> string list option" where
  "normalize_steps strip_lower steps =
     (case steps of
        None \<Rightarrow> None
      | Some cs \<Rightarrow>
          if cs = [] then None
          else (let normalized = normalize_loop strip_lower cs []
                in if normalized = [] then None else Some normalized))"




section \<open>Batch runs (pipelines/batch.py)\<close>

text \<open>
  A \<open>BatchPipeline\<close> object after \<open>__init__\<close>, which scans the directory for the
  structure files. Beside the file system the environment gives
  \<open>extract_final_energy\<close> (any exception of it is swallowed by the bare \<open>except\<close> around
  the call) and, for the parallel mode, whether the worker process of a structure
  dies or cannot return its result: then \<open>future.result()\<close> raises.
\<close>

record batch_pipeline =
  bp_pipeline_class :: pipeline_cls
  bp_structure_files :: "path list"
  bp_work_root :: path
  bp_pipeline_kwargs :: pydict
  bp_parallel :: bool
  bp_max_workers :: int
  bp_pressure_label :: "string option"

record batch_env = cli_env +
  extract_final_energy :: "path \<Rightarrow> pyexc + pyval"
  worker_failure :: "path \<Rightarrow> pyexc option"
  path_name :: "path \<Rightarrow> string"

definition batch_work_dir :: "'a batch_env_scheme \<Rightarrow> batch_pipeline \<Rightarrow> path \<Rightarrow> path" where
  "batch_work_dir env self structure_file =
     (case bp_pressure_label self of
        Some label \<Rightarrow>
          if label \<noteq> [] then path_join (path_join (bp_work_root self) (stem env structure_file)) label
          else path_join (bp_work_root self) (stem env structure_file)
      | None \<Rightarrow> path_join (bp_work_root self) (stem env structure_file))"

text \<open>
  \<open>_run_single_structure\<close>. The result dictionary starts with three keys; \<open>work_dir\<close>
  is added once the directory has been created, \<open>energy\<close> after a successful run when
  one is found, \<open>error\<close> by the handler.
\<close>

definition run_single_structure :: "'a batch_env_scheme \<Rightarrow> batch_pipeline \<Rightarrow> path \<Rightarrow> pydict" where
  "run_single_structure env self structure_file =
     (let result = [(''structure_name'', PStr (stem env structure_file)),
                    (''structure_file'', PStr structure_file),
                    (''success'', PBool False)];
          wd = batch_work_dir env self structure_file
      in (case mkdir env wd of
            Some exc \<Rightarrow> result @ [(''error'', PStr (exc_str exc))]
          | None \<Rightarrow>
              (let result1 = result @ [(''work_dir'', PStr wd)]
               in (case py_bind (py_kwcall (bp_pipeline_class self)
                                   [(''structure_file'', PStr structure_file),
                                    (''work_dir'', PStr wd)] (bp_pipeline_kwargs self))
                                (\<lambda>pipeline. run pipeline) of
                     Inl exc \<Rightarrow> result1 @ [(''error'', PStr (exc_str exc))]
                   | Inr success \<Rightarrow>
                       (let result2 = AList.update ''success'' (PBool success) result1
                        in if success
                           then (case extract_final_energy env (path_join wd ''01_relax'') of
                                   Inr energy \<Rightarrow>
                                     if truthy energy then result2 @ [(''energy'', energy)]
                                     else result2
                                 | Inl exc \<Rightarrow> result2)
                           else result2)))))"

definition run_serial :: "'a batch_env_scheme \<Rightarrow> batch_pipeline \<Rightarrow> pydict list" where
  "run_serial env self = map (run_single_structure env self) (bp_structure_files self)"

text \<open>
  \<open>_run_parallel\<close>: a pool of worker processes, the results taken in the order of
  \<open>as_completed\<close>; a future that raises gives a record built by the handler. The pool
  refuses a number of workers that is not positive.
\<close>

definition run_parallel ::
  "'a batch_env_scheme \<Rightarrow> schedule \<Rightarrow> batch_pipeline \<Rightarrow> pyexc + pydict list" where
  "run_parallel env sch self =
     (if bp_max_workers self \<le> 0
      then Inl (PyExc ''ValueError'' ''max_workers must be greater than 0'')
      else Inr (map (\<lambda>structure_file.
                       case worker_failure env structure_file of
                         None \<Rightarrow> run_single_structure env self structure_file
                       | Some exc \<Rightarrow>
                           [(''structure_name'', PStr (path_name env structure_file)),
                            (''structure_file'', PStr structure_file),
                            (''success'', PBool False),
                            (''error'', PStr (exc_str exc))])
                  (as_completed (nat (bp_max_workers self)) sch (bp_structure_files self))))"

text \<open>
  \<open>BatchPipeline.run\<close>: the results, or the exception that left it; with the lines of
  the summary file.
\<close>

definition batch_run ::
  "'a batch_env_scheme \<Rightarrow> schedule \<Rightarrow> batch_pipeline \<Rightarrow> (pyexc + pydict list) \<times> report_line list" where
  "batch_run env sch self =
     (case (if bp_parallel self then run_parallel env sch self
            else Inr (run_serial env self)) of
        Inl exc \<Rightarrow> (Inl exc, [])
      | Inr results \<Rightarrow>
          (case generate_summary_report results of
             (Some exc, lines) \<Rightarrow> (Inl exc, lines)
           | (None, lines) \<Rightarrow> (Inr results, lines)))"

section \<open>Example environments\<close>

text \<open>
  A small environment, used to run the definitions on concrete inputs: every directory
  can be created, no path exists, and every pipeline class builds a pipeline whose
  \<open>run()\<close> returns \<open>True\<close>.
\<close>

definition always_ok :: pipeline_cls where
  "always_ok kw = Inr \<lparr>run = Inr True, steps_data = []\<rparr>"

definition env0 :: cli_env where
  "env0 = \<lparr>mkdir = (\<lambda>_. None), path_exists = (\<lambda>_. False), is_dir = (\<lambda>_. False),
     glob = (\<lambda>_ _. []), stem = (\<lambda>p. p), cwd = ''.'', format_g = (\<lambda>_. ''0''),
     load_json = (\<lambda>_. Inr (PDict [])), float_of_str = (\<lambda>_. None),
     float_of_int = (\<lambda>i. Some (of_int i)), lower = (\<lambda>s. s),
     split_exts = (\<lambda>s. [s]),
     RelaxPipeline = always_ok, PropertiesPipeline = always_ok,
     PhononPropertiesPipeline = always_ok, MdPipeline = always_ok\<rparr>"

definition sch0 :: matrix_schedule where
  "sch0 = \<lparr>outer = \<lparr>finish_order = [1], yield_order = []\<rparr>,
            inner = (\<lambda>_. \<lparr>finish_order = [], yield_order = []\<rparr>)\<rparr>"

text \<open>A pipeline class whose constructor raises for the structure \<open>b\<close> only.\<close>

definition boom :: pipeline_cls where
  "boom kw = (if map_of kw ''structure_file'' = Some (PStr ''b'')
              then Inl (PyExc ''RuntimeError'' ''boom'') else always_ok kw)"

text \<open>
  Further fixtures: pipeline classes whose \<open>run()\<close> returns \<open>False\<close>, whose constructor
  raises \<open>ValueError()\<close>, or whose run records a primitive structure; environments in
  which the relax stage, the phonon stage or the md stage fails or raises, or in which
  one of the structures a relax run leaves exists on disk; a module list, a
  configuration with \<open>submit\<close> set, and the common configuration the combo task derives
  from it.
\<close>

definition relax_fails :: pipeline_cls where
  "relax_fails kw = Inr \<lparr>run = Inr False, steps_data = []\<rparr>"

definition all_modules :: pyval where
  "all_modules = PList [PStr ''relax'', PStr ''phonon'', PStr ''dos'', PStr ''md'']"

definition submit_config :: pyval where
  "submit_config = PDict [(''submit'', PBool True)]"

definition isch0 :: schedule where
  "isch0 = \<lparr>finish_order = [], yield_order = []\<rparr>"

definition relax_env :: cli_env where
  "relax_env = env0\<lparr>RelaxPipeline := relax_fails\<rparr>"

definition cfg0 :: "bool \<Rightarrow> pydict" where
  "cfg0 prepare_only = [(''kspacing'', PFloat (2 / 10)), (''encut'', PNone), (''potcar_dir'', PNone),
        (''potcar_type'', PStr ''PBE''), (''job_system'', PStr ''bash''),
        (''mpi_procs'', PNone), (''prepare_only'', PBool prepare_only)]"

definition relaxed_env :: cli_env where
  "relaxed_env = env0\<lparr>path_exists := (\<lambda>p. p = ''w/POSCAR_relaxed'')\<rparr>"

definition md_fails_env :: cli_env where
  "md_fails_env = env0\<lparr>MdPipeline := relax_fails\<rparr>"

definition raising :: pipeline_cls where
  "raising kw = Inl (PyExc ''ValueError'' [])"

definition relax_raises_env :: cli_env where
  "relax_raises_env = env0\<lparr>RelaxPipeline := raising\<rparr>"

definition phonon_raises_env :: cli_env where
  "phonon_raises_env = env0\<lparr>PhononPropertiesPipeline := raising\<rparr>"

definition records_primitive :: pipeline_cls where
  "records_primitive kw
     = Inr \<lparr>run = Inr True, steps_data = [(''primitive_structure'', PStr ''w/POSCAR_prim'')]\<rparr>"

definition primitive_env :: cli_env where
  "primitive_env = env0\<lparr>RelaxPipeline := records_primitive,
                         path_exists := (\<lambda>p. p = ''w/POSCAR_prim'')\<rparr>"

definition missing_primitive_env :: cli_env where
  "missing_primitive_env = env0\<lparr>RelaxPipeline := records_primitive,
                                 path_exists := (\<lambda>p. p = ''w/POSCAR_relaxed'')\<rparr>"












text \<open>
  Fixtures for the utilities and the pipelines: a POSCAR that cannot be read, a file of
  five lines whose lattice vectors are all zero, a batch in which the working directory
  of the first structure cannot be created, a step executor that counts its
  invocations, and an md pipeline in \<open>prepare_only\<close> mode in an environment where
  every preparation step succeeds.
\<close>

definition no_file :: text_env where
  "no_file = \<lparr>read_text = (\<lambda>_. Inl (PyExc ''FileNotFoundError'' ''No such file or directory'')),
              splitlines = (\<lambda>_. []), split_ws = (\<lambda>_. []), to_float = (\<lambda>_. None)\<rparr>"

definition flat_cell :: text_env where
  "flat_cell = \<lparr>read_text = (\<lambda>_. Inr ''flat''),
                 splitlines = (\<lambda>_. [''flat'', ''1'', ''0 0 0'', ''0 0 0'', ''0 0 0'']),
                 split_ws = (\<lambda>l. if l = ''1'' then [''1''] else [''0'', ''0'', ''0'']),
                 to_float = (\<lambda>s. if s = ''1'' then Some 1 else if s = ''0'' then Some 0 else None)\<rparr>"

definition blocked_env :: batch_env where
  "blocked_env = cli_env.extend
     (env0\<lparr>stem := (\<lambda>p. if p = ''in/a.vasp'' then ''a'' else if p = ''in/b.vasp'' then ''b'' else p),
           mkdir := (\<lambda>p. if p = ''w/a'' then Some (PyExc ''FileExistsError'' ''File exists: w/a'')
                          else None)\<rparr>)
     \<lparr>extract_final_energy = (\<lambda>_. Inr PNone), worker_failure = (\<lambda>_. None), path_name = (\<lambda>p. p)\<rparr>"

definition batch0 :: batch_pipeline where
  "batch0 = \<lparr>bp_pipeline_class = always_ok, bp_structure_files = [''in/a.vasp'', ''in/b.vasp''],
             bp_work_root = ''w'', bp_pipeline_kwargs = [], bp_parallel = False,
             bp_max_workers = 1, bp_pressure_label = None\<rparr>"

definition fresh_state :: "nat pipeline_state" where
  "fresh_state = \<lparr>checkpoint = Map.empty, statuses = Map.empty, world = 0, executed = []\<rparr>"

definition counting :: "nat executor" where
  "counting step n = (Inr True, Suc n)"

definition done_state :: "nat pipeline_state" where
  "done_state = \<lparr>checkpoint = [''relax'' \<mapsto> SUCCESS, ''scf'' \<mapsto> SUCCESS],
                  statuses = [''relax'' \<mapsto> SUCCESS, ''scf'' \<mapsto> SUCCESS],
                  world = 2, executed = [''relax'', ''scf'']\<rparr>"




section \<open>Executors: every submitted future is yielded once\<close>

declare thread_pool.simps [simp del]

declare pick_order.simps [simp del]

lemma choice_less: "0 < n \<Longrightarrow> choice cs n < n"
  by (auto simp: choice_def split: list.splits)

lemma mset_remove_nth: "i < length xs \<Longrightarrow> add_mset (xs ! i) (mset (remove_nth i xs)) = mset xs"
  unfolding remove_nth_def
  by (metis append_take_drop_id Cons_nth_drop_Suc mset.simps(2) mset_append union_mset_add_mset_right)

lemma map_remove_nth: "map f (remove_nth i xs) = remove_nth i (map f xs)"
  by (simp add: remove_nth_def take_map drop_map)

lemma thread_pool_start:
  "queued \<noteq> [] \<Longrightarrow> length running < w \<Longrightarrow>
   thread_pool w cs queued running = thread_pool w cs (tl queued) (running @ [hd queued])"
  by (subst thread_pool.simps) simp

lemma thread_pool_idle:
  "queued = [] \<or> \<not> length running < w \<Longrightarrow> running = [] \<Longrightarrow> thread_pool w cs queued running = []"
  by (subst thread_pool.simps) auto

lemma thread_pool_finish:
  "queued = [] \<or> \<not> length running < w \<Longrightarrow> running \<noteq> [] \<Longrightarrow>
   thread_pool w cs queued running =
     running ! choice cs (length running)
     # thread_pool w (tl cs) queued (remove_nth (choice cs (length running)) running)"
  by (subst thread_pool.simps) auto

lemma pick_order_Nil: "pick_order cs [] = []"
  by (subst pick_order.simps) simp

lemma pick_order_step:
  "xs \<noteq> [] \<Longrightarrow> pick_order cs xs =
     xs ! choice cs (length xs) # pick_order (tl cs) (remove_nth (choice cs (length xs)) xs)"
  by (subst pick_order.simps) simp

lemma mset_thread_pool: "0 < w \<Longrightarrow> mset (thread_pool w cs queued running) = mset queued + mset running"
proof (induction w cs queued running rule: thread_pool.induct)
  case (1 w cs queued running)
  show ?case
  proof (cases "queued \<noteq> [] \<and> length running < w")
    case True
    then obtain q qs where q: "queued = q # qs" by (cases queued) auto
    from True 1 show ?thesis by (simp add: thread_pool_start q)
  next
    case False
    then have F: "queued = [] \<or> \<not> length running < w" by blast
    show ?thesis
    proof (cases "running = []")
      case True
      with F 1 have "queued = []" by auto
      with True show ?thesis by (simp add: thread_pool_idle)
    next
      case r: False
      then have lt: "choice cs (length running) < length running" by (simp add: choice_less)
      from False r 1 have "mset (thread_pool w (tl cs) queued (remove_nth (choice cs (length running)) running))
          = mset queued + mset (remove_nth (choice cs (length running)) running)" by blast
      then show ?thesis
        by (simp add: thread_pool_finish[OF F r] mset_remove_nth[OF lt])
    qed
  qed
qed

lemma map_thread_pool: "map f (thread_pool w cs queued running) = thread_pool w cs (map f queued) (map f running)"
proof (induction w cs queued running rule: thread_pool.induct)
  case (1 w cs queued running)
  show ?case
  proof (cases "queued \<noteq> [] \<and> length running < w")
    case True
    with 1 show ?thesis
      by (simp add: thread_pool_start hd_map map_tl)
  next
    case False
    then have F: "queued = [] \<or> \<not> length running < w" by blast
    then have F': "map f queued = [] \<or> \<not> length (map f running) < w" by simp
    show ?thesis
    proof (cases "running = []")
      case True
      with F show ?thesis by (simp add: thread_pool_idle)
    next
      case r: False
      then have r': "map f running \<noteq> []" by simp
      from r have lt: "choice cs (length running) < length running" by (simp add: choice_less)
      from False r 1 have "map f (thread_pool w (tl cs) queued (remove_nth (choice cs (length running)) running))
          = thread_pool w (tl cs) (map f queued) (map f (remove_nth (choice cs (length running)) running))" by blast
      with lt show ?thesis
        by (simp add: thread_pool_finish[OF F r] thread_pool_finish[OF F' r'] map_remove_nth)
    qed
  qed
qed

lemma mset_pick_order: "mset (pick_order cs xs) = mset xs"
proof (induction cs xs rule: pick_order.induct)
  case (1 cs xs)
  show ?case
  proof (cases "xs = []")
    case True
    then show ?thesis by (simp add: pick_order_Nil)
  next
    case False
    then have lt: "choice cs (length xs) < length xs" by (simp add: choice_less)
    from False 1 show ?thesis
      by (simp add: pick_order_step[OF False] mset_remove_nth[OF lt])
  qed
qed

lemma map_pick_order: "map f (pick_order cs xs) = pick_order cs (map f xs)"
proof (induction cs xs rule: pick_order.induct)
  case (1 cs xs)
  show ?case
  proof (cases "xs = []")
    case True
    then show ?thesis by (simp add: pick_order_Nil)
  next
    case False
    then have F': "map f xs \<noteq> []" by simp
    from False have lt: "choice cs (length xs) < length xs" by (simp add: choice_less)
    from False 1 lt show ?thesis
      by (simp add: pick_order_step[OF False] pick_order_step[OF F'] map_remove_nth)
  qed
qed

lemma mset_as_completed: "0 < w \<Longrightarrow> mset (as_completed w sch xs) = mset xs"
  by (simp add: as_completed_def mset_pick_order mset_thread_pool)

lemma map_as_completed: "map f (as_completed w sch xs) = as_completed w sch (map f xs)"
  by (simp add: as_completed_def map_pick_order map_thread_pool)

lemma gather_map_Inr: "gather (map Inr rs) = Inr rs"
  by (induction rs) (auto simp: py_bind_def)

section \<open>The task matrix\<close>

lemma single_identity:
  "r_structure (run_single_pipeline env cls s wd kw p) = s \<and> r_pressure (run_single_pipeline env cls s wd kw p) = p"
  by (simp add: run_single_pipeline_def ok_result_def failed_result_def split: sum.splits)

lemma combo_identity:
  "r_structure (run_combo_pipeline env sch m s wd p c) = s \<and> r_pressure (run_combo_pipeline env sch m s wd p c) = p"
  by (auto simp: run_combo_pipeline_def run_combo_traced_def run_combo_try_def ok_result_def failed_result_def Let_def
      split: sum.splits option.splits prod.splits if_splits)

lemma submit_all_single:
  "submit_all env sch wr (Some cls) kw False i tasks =
     Inr (map (\<lambda>x. Inr (case x of (j, s, p) \<Rightarrow>
                 run_single_pipeline env cls s (task_work_dir env wr s p) kw p))
            (enumerate i tasks))"
  by (induction tasks arbitrary: i) (auto simp: submit_task_def py_bind_def)

lemma submit_all_combo:
  "map_of kw ''modules'' = Some m \<Longrightarrow> map_of kw ''config'' = Some c \<Longrightarrow>
   submit_all env sch wr pc kw True i tasks =
     Inr (map (\<lambda>x. Inr (case x of (j, s, p) \<Rightarrow>
                 run_combo_pipeline env (inner sch j) m s (task_work_dir env wr s p) p c))
            (enumerate i tasks))"
  by (induction tasks arbitrary: i) (auto simp: submit_task_def py_bind_def dict_item_def)

lemma gather_as_completed:
  "gather (as_completed w sch (map (\<lambda>x. Inr (f x)) xs)) = Inr (map f (as_completed w sch xs))"
proof -
  have eq: "as_completed w sch (map (\<lambda>x. Inr (f x)) xs) = map Inr (map f (as_completed w sch xs))"
    by (simp add: map_as_completed[symmetric])
  show ?thesis unfolding eq by (rule gather_map_Inr)
qed

lemma workers_pos: "0 < nat \<lceil>max (tasks_limit::real) 1\<rceil>"
  by (simp add: max_def)

lemma matrix_single:
  "run_matrix_tasks env sch structures pressures wr (Some cls) kw tasks_limit pf False =
     Inr (map (\<lambda>(j, s, p). run_single_pipeline env cls s (task_work_dir env wr s p) kw p)
            (as_completed (nat \<lceil>max tasks_limit 1\<rceil>) (outer sch) (enumerate 0 (matrix_tasks structures pressures))))"
  by (simp add: run_matrix_tasks_def submit_all_single py_bind_def gather_as_completed)

lemma matrix_combo:
  assumes "map_of kw ''modules'' = Some m" "map_of kw ''config'' = Some c"
  shows "run_matrix_tasks env sch structures pressures wr pc kw tasks_limit pf True =
     Inr (map (\<lambda>(j, s, p). run_combo_pipeline env (inner sch j) m s (task_work_dir env wr s p) p c)
            (as_completed (nat \<lceil>max tasks_limit 1\<rceil>) (outer sch) (enumerate 0 (matrix_tasks structures pressures))))"
  by (simp add: run_matrix_tasks_def submit_all_combo[OF assms] py_bind_def gather_as_completed)

lemma matrix_tasks_product: "matrix_tasks structures pressures = List.product structures pressures"
  by (induction structures) (auto simp: matrix_tasks_def)

lemma mset_order_tasks:
  assumes "0 < w"
  shows "mset (map snd (as_completed w sch (enumerate 0 tasks))) = mset tasks"
proof -
  have "mset (as_completed w sch (enumerate 0 tasks)) = mset (enumerate 0 tasks)"
    using assms by (rule mset_as_completed)
  then have "image_mset snd (mset (as_completed w sch (enumerate 0 tasks))) = image_mset snd (mset (enumerate 0 tasks))"
    by simp
  then show ?thesis by (metis mset_map map_snd_enumerate)
qed


text \<open>
  Claim C1. For all lists of structure files and of pressures, and for every
  \<open>tasks_limit\<close> (the pool has \<open>max(tasks_limit, 1)\<close> workers), \<open>_run_matrix_tasks\<close>
  returns, whatever the order in which the workers finish, exactly
  \<open>length structures * length pressures\<close> records, and the (structure, pressure)
  identities of the records are, as a multiset, the Cartesian product of the two
  lists: one record per pair. The caller supplies what the mode needs: the keys
  \<open>modules\<close> and \<open>config\<close> in combo mode, a pipeline class otherwise, as every call in
  cli.py does.
\<close>

theorem C1_matrix_one_result_per_pair:
  assumes "combo_mode \<longrightarrow> map_of pipeline_kwargs ''modules'' \<noteq> None \<and> map_of pipeline_kwargs ''config'' \<noteq> None"
    and "\<not> combo_mode \<longrightarrow> pipeline_class \<noteq> None"
  shows "\<exists>results.
      run_matrix_tasks env sch structures pressures work_root pipeline_class pipeline_kwargs
        tasks_limit pressure_first combo_mode = Inr results
    \<and> length results = length structures * length pressures
    \<and> mset (map (\<lambda>r. (r_structure r, r_pressure r)) results) = mset (List.product structures pressures)"
proof -
  let ?w = "nat \<lceil>max tasks_limit 1\<rceil>"
  let ?order = "as_completed ?w (outer sch) (enumerate 0 (matrix_tasks structures pressures))"
  have ord: "mset (map snd ?order) = mset (List.product structures pressures)"
    using mset_order_tasks[OF workers_pos] by (simp only: matrix_tasks_product)
  then have "size (mset (map snd ?order)) = size (mset (List.product structures pressures))"
    by (rule arg_cong)
  then have len: "length ?order = length structures * length pressures" by simp
  show ?thesis
  proof (cases combo_mode)
    case True
    with assms obtain m c where mc: "map_of pipeline_kwargs ''modules'' = Some m" "map_of pipeline_kwargs ''config'' = Some c"
      by auto
    let ?f = "\<lambda>(j, s, p). run_combo_pipeline env (inner sch j) m s (task_work_dir env work_root s p) p c"
    have eq: "map (\<lambda>r. (r_structure r, r_pressure r)) (map ?f ?order) = map snd ?order"
      by (simp add: combo_identity split_beta)
    have R: "run_matrix_tasks env sch structures pressures work_root pipeline_class pipeline_kwargs
        tasks_limit pressure_first combo_mode = Inr (map ?f ?order)"
      using matrix_combo[OF mc] True by simp
    have L: "length (map ?f ?order) = length structures * length pressures"
      using len by simp
    have M: "mset (map (\<lambda>r. (r_structure r, r_pressure r)) (map ?f ?order)) = mset (List.product structures pressures)"
      unfolding eq by (rule ord)
    from R L M show ?thesis by blast
  next
    case False
    with assms obtain cls where cls: "pipeline_class = Some cls" by auto
    let ?f = "\<lambda>(j, s, p). run_single_pipeline env cls s (task_work_dir env work_root s p) pipeline_kwargs p"
    have eq: "map (\<lambda>r. (r_structure r, r_pressure r)) (map ?f ?order) = map snd ?order"
      by (simp add: single_identity split_beta)
    have R: "run_matrix_tasks env sch structures pressures work_root pipeline_class pipeline_kwargs
        tasks_limit pressure_first combo_mode = Inr (map ?f ?order)"
      using matrix_single False cls by simp
    have L: "length (map ?f ?order) = length structures * length pressures"
      using len by simp
    have M: "mset (map (\<lambda>r. (r_structure r, r_pressure r)) (map ?f ?order)) = mset (List.product structures pressures)"
      unfolding eq by (rule ord)
    from R L M show ?thesis by blast
  qed
qed

theorem C1_matrix_one_result_per_pair_witness:
  "run_matrix_tasks env0 sch0 [''a'', ''b''] [0, 10] ''w'' (Some always_ok) [] 2 False False
     = Inr [ok_result ''a'' 10 True, ok_result ''a'' 0 True,
            ok_result ''b'' 0 True, ok_result ''b'' 10 True]
   \<and> length [ok_result ''a'' 10 True, ok_result ''a'' 0 True,
              ok_result ''b'' 0 True, ok_result ''b'' 10 True]
       = length [''a'', ''b''] * length [0, 10 :: real]
   \<and> mset [(''a'', 10), (''a'', 0), (''b'', 0), (''b'', 10 :: real)]
       = mset (List.product [''a'', ''b''] [0, 10])"
proof -
  have ev: "run_matrix_tasks env0 sch0 [''a'', ''b''] [0, 10] ''w'' (Some always_ok) [] 2 False False
     = Inr [ok_result ''a'' 10 True, ok_result ''a'' 0 True,
            ok_result ''b'' 0 True, ok_result ''b'' 10 True]"
    by code_simp
  from C1_matrix_one_result_per_pair
         [of False "[]" "Some always_ok" env0 sch0 "[''a'', ''b'']" "[0, 10]" "''w''" 2 False]
  obtain results where
    "run_matrix_tasks env0 sch0 [''a'', ''b''] [0, 10] ''w'' (Some always_ok) [] 2 False False
       = Inr results"
    "length results = length [''a'', ''b''] * length [0, 10 :: real]"
    "mset (map (\<lambda>r. (r_structure r, r_pressure r)) results)
       = mset (List.product [''a'', ''b''] [0, 10])"
    by auto
  with ev show ?thesis by (auto simp: ok_result_def)
qed

section \<open>Failures stay inside their work unit\<close>

lemma set_as_completed: "0 < w \<Longrightarrow> set (as_completed w sch xs) = set xs"
  by (metis mset_as_completed set_mset_mset)

lemma collect_True: "collect fs b = Inr True \<longleftrightarrow> b \<and> (\<forall>f \<in> set fs. f = Inr True)"
proof (induction fs b rule: collect.induct)
  case (1 success) show ?case by simp
next
  case (2 exc fs success) show ?case by simp
next
  case (3 b fs success) then show ?case by auto
qed

lemma collect_cases: "collect fs b = Inr True \<or> collect fs b = Inr False \<or> (\<exists>exc. collect fs b = Inl exc)"
  by (cases "collect fs b") auto

lemma property_filter_strs:
  "property_filter (map PStr ms) = Inr (filter (\<lambda>m. m \<in> set PROPERTY_MODULES) ms)"
  by (induction ms) (auto simp: py_bind_def)

text \<open>
  Claim C2, as stated, fails: the error message of the record is \<open>str(exc)\<close>, and an
  exception raised without arguments has the empty text. Here the constructor of
  the pipeline raises \<open>ValueError()\<close>; the worker catches it and returns a record whose
  error message is empty.
\<close>

theorem C2_counterexample:
  "run_single_try env0 (\<lambda>kw. Inl (PyExc ''ValueError'' [])) ''a.vasp'' ''w'' [] 0
     = Inl (PyExc ''ValueError'' [])
   \<and> run_single_pipeline env0 (\<lambda>kw. Inl (PyExc ''ValueError'' [])) ''a.vasp'' ''w'' [] 0
     = \<lparr>r_structure = ''a.vasp'', r_pressure = 0, r_success = False, r_error = Some []\<rparr>"
  by (simp add: run_single_pipeline_def run_single_try_def env0_def py_kwcall_def py_bind_def failed_result_def)

text \<open>
  Claim C2, amended. The matrix run returns normally, and its list of records is the
  list of the records of the work units' own workers, in the order in which the
  executor yields them; that order is fixed by the schedule alone, and the record of a
  unit is computed from that unit's file, directory and pressure only, so the failure
  of one unit changes no other record. Whenever the \<open>try\<close> block of a worker
  (\<open>_run_single_pipeline\<close> or \<open>_run_combo_pipeline\<close>) raises an exception, the worker
  returns the unit's record with \<open>success = False\<close> and the exception's text as error
  message (non-empty exactly when that text is).
\<close>

theorem C2_exception_isolated:
  "run_matrix_tasks env sch structures pressures work_root (Some cls) pipeline_kwargs
       tasks_limit pressure_first False
     = Inr (map (\<lambda>(i, s, p). run_single_pipeline env cls s (task_work_dir env work_root s p)
                                pipeline_kwargs p)
              (as_completed (nat \<lceil>max tasks_limit 1\<rceil>) (outer sch)
                 (enumerate 0 (matrix_tasks structures pressures))))
   \<and> (map_of pipeline_kwargs ''modules'' = Some modules
        \<and> map_of pipeline_kwargs ''config'' = Some config \<longrightarrow>
      run_matrix_tasks env sch structures pressures work_root pipeline_class pipeline_kwargs
          tasks_limit pressure_first True
        = Inr (map (\<lambda>(i, s, p). run_combo_pipeline env (inner sch i) modules s
                                   (task_work_dir env work_root s p) p config)
                 (as_completed (nat \<lceil>max tasks_limit 1\<rceil>) (outer sch)
                    (enumerate 0 (matrix_tasks structures pressures)))))
   \<and> (run_single_try env cls structure_file work_dir pipeline_kwargs pressure = Inl exc \<longrightarrow>
      run_single_pipeline env cls structure_file work_dir pipeline_kwargs pressure
        = \<lparr>r_structure = structure_file, r_pressure = pressure, r_success = False,
           r_error = Some (exc_str exc)\<rparr>)
   \<and> (fst (run_combo_try env isch modules structure_file work_dir pressure config) = Inl exc \<longrightarrow>
      run_combo_pipeline env isch modules structure_file work_dir pressure config
        = \<lparr>r_structure = structure_file, r_pressure = pressure, r_success = False,
           r_error = Some (exc_str exc)\<rparr>)"
proof (intro conjI impI)
  show "run_matrix_tasks env sch structures pressures work_root (Some cls) pipeline_kwargs
       tasks_limit pressure_first False
     = Inr (map (\<lambda>(i, s, p). run_single_pipeline env cls s (task_work_dir env work_root s p)
                                pipeline_kwargs p)
              (as_completed (nat \<lceil>max tasks_limit 1\<rceil>) (outer sch)
                 (enumerate 0 (matrix_tasks structures pressures))))"
    by (rule matrix_single)
next
  assume "map_of pipeline_kwargs ''modules'' = Some modules \<and> map_of pipeline_kwargs ''config'' = Some config"
  then show "run_matrix_tasks env sch structures pressures work_root pipeline_class pipeline_kwargs
          tasks_limit pressure_first True
        = Inr (map (\<lambda>(i, s, p). run_combo_pipeline env (inner sch i) modules s
                                   (task_work_dir env work_root s p) p config)
                 (as_completed (nat \<lceil>max tasks_limit 1\<rceil>) (outer sch)
                    (enumerate 0 (matrix_tasks structures pressures))))"
    by (simp add: matrix_combo)
next
  assume "run_single_try env cls structure_file work_dir pipeline_kwargs pressure = Inl exc"
  then show "run_single_pipeline env cls structure_file work_dir pipeline_kwargs pressure
        = \<lparr>r_structure = structure_file, r_pressure = pressure, r_success = False,
           r_error = Some (exc_str exc)\<rparr>"
    by (simp add: run_single_pipeline_def failed_result_def)
next
  assume "fst (run_combo_try env isch modules structure_file work_dir pressure config) = Inl exc"
  then show "run_combo_pipeline env isch modules structure_file work_dir pressure config
        = \<lparr>r_structure = structure_file, r_pressure = pressure, r_success = False,
           r_error = Some (exc_str exc)\<rparr>"
    by (cases "run_combo_try env isch modules structure_file work_dir pressure config")
       (simp add: run_combo_pipeline_def run_combo_traced_def failed_result_def)
qed

theorem C2_exception_isolated_witness:
  "run_single_try env0 boom ''b'' ''w/b/0_GPa'' [] 0 = Inl (PyExc ''RuntimeError'' ''boom'')
   \<and> run_single_pipeline env0 boom ''b'' ''w/b/0_GPa'' [] 0
     = \<lparr>r_structure = ''b'', r_pressure = 0, r_success = False, r_error = Some ''boom''\<rparr>
   \<and> run_matrix_tasks env0 sch0 [''a'', ''b'', ''c''] [0] ''w'' (Some boom) [] 2 False False
     = Inr [failed_result ''b'' 0 ''boom'', ok_result ''a'' 0 True, ok_result ''c'' 0 True]"
proof -
  note inst = C2_exception_isolated
    [where env = env0 and sch = sch0 and structures = "[''a'', ''b'', ''c'']"
       and pressures = "[0]" and work_root = "''w''" and cls = boom
       and pipeline_kwargs = "[]" and tasks_limit = 2 and pressure_first = False
       and structure_file = "''b''" and work_dir = "''w/b/0_GPa''" and pressure = 0
       and exc = "PyExc ''RuntimeError'' ''boom''"]
  have t: "run_single_try env0 boom ''b'' ''w/b/0_GPa'' [] 0 = Inl (PyExc ''RuntimeError'' ''boom'')"
    by code_simp
  from inst t have r: "run_single_pipeline env0 boom ''b'' ''w/b/0_GPa'' [] 0
     = \<lparr>r_structure = ''b'', r_pressure = 0, r_success = False, r_error = Some ''boom''\<rparr>"
    by simp
  from inst have "run_matrix_tasks env0 sch0 [''a'', ''b'', ''c''] [0] ''w'' (Some boom) [] 2 False False
     = Inr (map (\<lambda>(i, s, p). run_single_pipeline env0 boom s (task_work_dir env0 ''w'' s p) [] p)
              (as_completed (nat \<lceil>max 2 (1::real)\<rceil>) (outer sch0)
                 (enumerate 0 (matrix_tasks [''a'', ''b'', ''c''] [0]))))"
    by blast
  also have "\<dots> = Inr [failed_result ''b'' 0 ''boom'', ok_result ''a'' 0 True, ok_result ''c'' 0 True]"
    by code_simp
  finally show ?thesis using t r by simp
qed

section \<open>Combo tasks\<close>

lemma py_bind_Inr_iff: "py_bind m f = Inr y \<longleftrightarrow> (\<exists>x. m = Inr x \<and> f x = Inr y)"
  by (cases m) (simp_all add: py_bind_def)

lemma cfg_common_prepare_only:
  assumes "combo_cfg_common (PDict c) = Inr cfg_common"
  shows "dict_get cfg_common ''prepare_only'' dflt = PBool (\<not> truthy (dict_get c ''submit'' (PBool False)))"
proof -
  from assms obtain potcar_dir where
    "cfg_common = [(''kspacing'', dict_get c ''kspacing'' (PFloat (2 / 10))),
                (''encut'', dict_get0 c ''encut''),
                (''potcar_dir'', potcar_dir),
                (''potcar_type'', dict_get c ''potcar_type'' (PStr ''PBE'')),
                (''job_system'', dict_get c ''job_system'' (PStr ''bash'')),
                (''mpi_procs'', dict_get0 c ''mpi_procs''),
                (''prepare_only'', PBool (\<not> truthy (dict_get c ''submit'' (PBool False))))]"
    unfolding combo_cfg_common_def pyval.case py_bind_Inr_iff by blast
  then show ?thesis by (simp add: dict_get_def)
qed

lemma prelude_cfg:
  assumes "combo_prelude env modules work_dir config = Inr (cfg_common, need_phonon, property_modules, need_md)"
  shows "combo_cfg_common config = Inr cfg_common"
proof (cases "mkdir env work_dir")
  case None
  with assms have "py_bind (combo_cfg_common config)
         (\<lambda>cfg_common.
             py_bind (py_in_str ''phonon'' modules)
              (\<lambda>need_phonon.
                  py_bind (py_bind (py_iter modules) property_filter)
                   (\<lambda>property_modules.
                       py_bind (py_in_str ''md'' modules)
                        (\<lambda>need_md.
                            Inr (cfg_common, need_phonon, property_modules,
                                 need_md))))) =
      Inr (cfg_common, need_phonon, property_modules, need_md)"
    by (simp add: combo_prelude_def)
  then show ?thesis
    unfolding py_bind_Inr_iff by auto
next
  case (Some exc)
  with assms show ?thesis by (simp add: combo_prelude_def)
qed

lemma prelude_prepare_only:
  assumes "combo_prelude env modules work_dir (PDict c) = Inr (cfg_common, need_phonon, property_modules, need_md)"
  shows "truthy (dict_get cfg_common ''prepare_only'' (PBool True)) = (\<not> truthy (dict_get c ''submit'' (PBool False)))"
  using cfg_common_prepare_only[OF prelude_cfg[OF assms]] by simp

lemma prelude_strs:
  assumes "combo_prelude env (PList (map PStr ms)) work_dir config = Inr (cfg_common, need_phonon, property_modules, need_md)"
  shows "need_phonon = (''phonon'' \<in> set ms)"
    and "property_modules = filter (\<lambda>m. m \<in> set PROPERTY_MODULES) ms"
    and "need_md = (''md'' \<in> set ms)"
  using assms
  by (auto simp: combo_prelude_def py_bind_def property_filter_strs split: option.splits sum.splits)

lemma snd_run_combo_traced:
  "snd (run_combo_traced env sch modules structure_file work_dir pressure config)
     = snd (run_combo_try env sch modules structure_file work_dir pressure config)"
  by (cases "run_combo_try env sch modules structure_file work_dir pressure config")
     (auto simp: run_combo_traced_def split: sum.splits)

lemma fst_run_combo_traced:
  "fst (run_combo_traced env sch modules structure_file work_dir pressure config)
     = (case fst (run_combo_try env sch modules structure_file work_dir pressure config) of
          Inr res \<Rightarrow> res
        | Inl exc \<Rightarrow> failed_result structure_file pressure (exc_str exc))"
  by (cases "run_combo_try env sch modules structure_file work_dir pressure config")
     (auto simp: run_combo_traced_def split: sum.splits)

lemma combo_calls_launch:
  assumes "combo_prelude env modules work_dir config
             = Inr (cfg_common, need_phonon, property_modules, need_md)"
    and "run_relax_pipeline env structure_file work_dir cfg_common pressure = Inr relax_res"
    and "rr_success relax_res"
    and "\<not> truthy (dict_get cfg_common ''prepare_only'' (PBool True))"
  shows "snd (run_combo_try env sch modules structure_file work_dir pressure config)
     = RelaxCall structure_file
       # map (\<lambda>g. GroupCall g
                 (if path_exists env (case rr_primitive relax_res of
                                        Some prim \<Rightarrow> prim
                                      | None \<Rightarrow> rr_relaxed relax_res)
                  then (case rr_primitive relax_res of
                          Some prim \<Rightarrow> prim
                        | None \<Rightarrow> rr_relaxed relax_res)
                  else structure_file))
           (requested_groups need_phonon property_modules need_md)"
  using assms by (simp add: run_combo_try_def Let_def)

lemma rr_relaxed_path:
  "run_relax_pipeline env structure_file work_dir cfg pressure = Inr relax_res \<Longrightarrow>
   rr_relaxed relax_res = path_join work_dir ''POSCAR_relaxed''"
  by (auto simp: run_relax_pipeline_def py_bind_def split: sum.splits)

lemma r_success_results [simp]:
  "r_success (ok_result s p b) = b" "r_success (failed_result s p msg) = False"
  by (simp_all add: ok_result_def failed_result_def)

lemma combo_try_fanout:
  assumes "combo_prelude env modules work_dir config
             = Inr (cfg_common, need_phonon, property_modules, need_md)"
    and "run_relax_pipeline env structure_file work_dir cfg_common pressure = Inr relax_res"
    and "rr_success relax_res"
    and "\<not> truthy (dict_get cfg_common ''prepare_only'' (PBool True))"
  shows "fst (run_combo_try env sch modules structure_file work_dir pressure config)
     = (case collect (as_completed 3 sch
                (map (run_group env
                        (if path_exists env (case rr_primitive relax_res of
                                               Some prim \<Rightarrow> prim
                                             | None \<Rightarrow> rr_relaxed relax_res)
                         then (case rr_primitive relax_res of
                                 Some prim \<Rightarrow> prim
                               | None \<Rightarrow> rr_relaxed relax_res)
                         else structure_file)
                        work_dir property_modules cfg_common pressure)
                   (requested_groups need_phonon property_modules need_md))) True of
          Inl exc \<Rightarrow> Inl exc
        | Inr success \<Rightarrow>
            if \<not> success
            then Inr (failed_result structure_file pressure ''sub pipeline failed'')
            else Inr (ok_result structure_file pressure True))"
  using assms by (simp add: run_combo_try_def Let_def)

lemma combo_try_prepare_only:
  assumes "combo_prelude env modules work_dir config
             = Inr (cfg_common, need_phonon, property_modules, need_md)"
    and "run_relax_pipeline env structure_file work_dir cfg_common pressure = Inr relax_res"
    and "rr_success relax_res"
    and "truthy (dict_get cfg_common ''prepare_only'' (PBool True))"
  shows "run_combo_try env sch modules structure_file work_dir pressure config
     = (Inr (ok_result structure_file pressure True), [RelaxCall structure_file])"
  using assms by (simp add: run_combo_try_def)

lemma fanout_success:
  "r_success (case (case collect fs True of
                      Inl exc \<Rightarrow> Inl exc
                    | Inr success \<Rightarrow>
                        if \<not> success then Inr (failed_result s p msg)
                        else Inr (ok_result s p True)) of
                Inr res \<Rightarrow> res
              | Inl exc \<Rightarrow> failed_result s p (exc_str exc))
     = (\<forall>f \<in> set fs. f = Inr True)"
proof -
  consider "collect fs True = Inr True" | "collect fs True = Inr False" | exc where "collect fs True = Inl exc"
    using collect_cases by blast
  then show ?thesis
  proof cases
    case 1
    then show ?thesis using collect_True[of fs True] by simp
  next
    case 2
    then show ?thesis using collect_True[of fs True] by simp
  next
    case 3
    then show ?thesis using collect_True[of fs True] by simp
  qed
qed

text \<open>
  Claim C4, as stated, fails in its last part: when the relax pipeline raises, the
  record's diagnostic is the text of the exception, which need not name the relax
  stage. With a relax pipeline that raises \<open>ValueError()\<close> the diagnostic is the empty
  string, and the record is the very record of a task whose relax stage succeeded and
  whose phonon pipeline raised \<open>ValueError()\<close>: nothing in it identifies the
  prerequisite as the cause.
\<close>

theorem C4_counterexample:
  "run_relax_pipeline relax_raises_env ''a'' ''w'' (cfg0 False) 0 = Inl (PyExc ''ValueError'' [])
   \<and> run_combo_traced relax_raises_env isch0 all_modules ''a'' ''w'' 0 submit_config
       = (\<lparr>r_structure = ''a'', r_pressure = 0, r_success = False, r_error = Some []\<rparr>,
          [RelaxCall ''a''])
   \<and> run_relax_pipeline phonon_raises_env ''a'' ''w'' (cfg0 False) 0
       = Inr \<lparr>rr_success = True, rr_relaxed = ''w/POSCAR_relaxed'', rr_primitive = None,
              rr_conventional = None\<rparr>
   \<and> run_combo_traced phonon_raises_env isch0 all_modules ''a'' ''w'' 0 submit_config
       = (\<lparr>r_structure = ''a'', r_pressure = 0, r_success = False, r_error = Some []\<rparr>,
          [RelaxCall ''a'', GroupCall Phonon ''a'', GroupCall Properties ''a'',
           GroupCall Md ''a''])"
  by code_simp

text \<open>
  Claim C4, amended. When the relax stage of a combo task fails, no downstream stage
  runner is called (the relax runner is the only call) and the task's record is a
  failed one. When the relax pipeline's \<open>run()\<close> returns \<open>False\<close> the diagnostic is
  \<open>relax failed\<close>, which identifies the prerequisite as the cause; when the relax
  pipeline raises, the diagnostic is the text of the exception.
\<close>

theorem C4_relax_failure_stops_combo:
  assumes "combo_prelude env modules work_dir config = Inr (cfg_common, need_phonon, property_modules, need_md)"
  shows "(\<forall>relax_res. run_relax_pipeline env structure_file work_dir cfg_common pressure = Inr relax_res
            \<and> \<not> rr_success relax_res \<longrightarrow>
          run_combo_traced env sch modules structure_file work_dir pressure config
            = (\<lparr>r_structure = structure_file, r_pressure = pressure, r_success = False,
                r_error = Some ''relax failed''\<rparr>, [RelaxCall structure_file]))
       \<and> (\<forall>exc. run_relax_pipeline env structure_file work_dir cfg_common pressure = Inl exc \<longrightarrow>
          run_combo_traced env sch modules structure_file work_dir pressure config
            = (\<lparr>r_structure = structure_file, r_pressure = pressure, r_success = False,
                r_error = Some (exc_str exc)\<rparr>, [RelaxCall structure_file]))"
  using assms
  by (simp add: run_combo_traced_def run_combo_try_def failed_result_def)

theorem C4_relax_failure_stops_combo_witness:
  "combo_prelude relax_env all_modules ''w'' submit_config = Inr (cfg0 False, True, [''dos''], True)
   \<and> run_relax_pipeline relax_env ''a'' ''w'' (cfg0 False) 0
       = Inr \<lparr>rr_success = False, rr_relaxed = ''w/POSCAR_relaxed'', rr_primitive = None,
              rr_conventional = None\<rparr>
   \<and> run_combo_traced relax_env isch0 all_modules ''a'' ''w'' 0 submit_config
       = (\<lparr>r_structure = ''a'', r_pressure = 0, r_success = False,
           r_error = Some ''relax failed''\<rparr>, [RelaxCall ''a''])
   \<and> combo_prelude relax_raises_env all_modules ''w'' submit_config
       = Inr (cfg0 False, True, [''dos''], True)
   \<and> run_relax_pipeline relax_raises_env ''a'' ''w'' (cfg0 False) 0
       = Inl (PyExc ''ValueError'' [])
   \<and> run_combo_traced relax_raises_env isch0 all_modules ''a'' ''w'' 0 submit_config
       = (\<lparr>r_structure = ''a'', r_pressure = 0, r_success = False, r_error = Some []\<rparr>,
          [RelaxCall ''a''])"
proof -
  have p: "combo_prelude relax_env all_modules ''w'' submit_config = Inr (cfg0 False, True, [''dos''], True)"
    by code_simp
  have r: "run_relax_pipeline relax_env ''a'' ''w'' (cfg0 False) 0
       = Inr \<lparr>rr_success = False, rr_relaxed = ''w/POSCAR_relaxed'', rr_primitive = None,
              rr_conventional = None\<rparr>"
    by code_simp
  have p': "combo_prelude relax_raises_env all_modules ''w'' submit_config
       = Inr (cfg0 False, True, [''dos''], True)"
    by code_simp
  have r': "run_relax_pipeline relax_raises_env ''a'' ''w'' (cfg0 False) 0
       = Inl (PyExc ''ValueError'' [])"
    by code_simp
  from C4_relax_failure_stops_combo[OF p, where structure_file = "''a''" and pressure = 0 and sch = isch0] r
  have a: "run_combo_traced relax_env isch0 all_modules ''a'' ''w'' 0 submit_config
       = (\<lparr>r_structure = ''a'', r_pressure = 0, r_success = False,
           r_error = Some ''relax failed''\<rparr>, [RelaxCall ''a''])"
    by simp
  from C4_relax_failure_stops_combo[OF p', where structure_file = "''a''" and pressure = 0 and sch = isch0] r'
  have b: "run_combo_traced relax_raises_env isch0 all_modules ''a'' ''w'' 0 submit_config
       = (\<lparr>r_structure = ''a'', r_pressure = 0, r_success = False, r_error = Some []\<rparr>,
          [RelaxCall ''a''])"
    by simp
  from p r p' r' a b show ?thesis by simp
qed

text \<open>
  Claim C5, as stated, fails: without \<open>--submit\<close> (\<open>prepare_only\<close>) the combo task returns
  right after a successful relax stage and launches no downstream group, although
  phonon, a property module and md were requested.
\<close>

theorem C5_counterexample:
  "run_relax_pipeline env0 ''a'' ''w'' (cfg0 True) 0
       = Inr \<lparr>rr_success = True, rr_relaxed = ''w/POSCAR_relaxed'', rr_primitive = None,
              rr_conventional = None\<rparr>
   \<and> run_combo_traced env0 isch0 all_modules ''a'' ''w'' 0 (PDict [])
       = (\<lparr>r_structure = ''a'', r_pressure = 0, r_success = True, r_error = None\<rparr>,
          [RelaxCall ''a''])"
  by code_simp

text \<open>
  Claim C5, amended. When the relax stage succeeds and \<open>submit\<close> is not set
  (\<open>prepare_only\<close>), the relax runner is the only stage runner called: no group is
  launched. When the relax stage succeeds and \<open>submit\<close> is set, the stage runners called
  are the relax runner and then exactly the requested downstream groups (phonon if
  \<open>phonon\<close> is among the modules, the properties group if some property module is, md
  if \<open>md\<close> is), all with one input structure, and the \<open>success\<close> of the task's record
  is the conjunction of what these runs return. That input structure is the primitive
  structure recorded by the relax pipeline when it is recorded and exists on disk;
  \<open>POSCAR_relaxed\<close> of the working directory when no primitive structure is recorded
  and that file exists; the original structure file when neither a recorded primitive
  structure nor \<open>POSCAR_relaxed\<close> exists.
\<close>

theorem C5_downstream_groups_launched:
  assumes "combo_prelude env (PList (map PStr ms)) work_dir (PDict c)
             = Inr (cfg_common, need_phonon, property_modules, need_md)"
    and "run_relax_pipeline env structure_file work_dir cfg_common pressure = Inr relax_res"
    and "rr_success relax_res"
  shows "(\<not> truthy (dict_get c ''submit'' (PBool False)) \<longrightarrow>
            snd (run_combo_traced env sch (PList (map PStr ms)) structure_file work_dir pressure
                   (PDict c))
              = [RelaxCall structure_file])
     \<and> (truthy (dict_get c ''submit'' (PBool False)) \<longrightarrow>
          (\<exists>src.
              snd (run_combo_traced env sch (PList (map PStr ms)) structure_file work_dir pressure
                     (PDict c))
                = RelaxCall structure_file
                  # map (\<lambda>g. GroupCall g src)
                      ((if ''phonon'' \<in> set ms then [Phonon] else [])
                       @ (if \<exists>m \<in> set ms. m \<in> set PROPERTY_MODULES then [Properties] else [])
                       @ (if ''md'' \<in> set ms then [Md] else []))
            \<and> r_success (run_combo_pipeline env sch (PList (map PStr ms)) structure_file
                            work_dir pressure (PDict c))
                = list_all (\<lambda>g. run_group env src work_dir
                                   (filter (\<lambda>m. m \<in> set PROPERTY_MODULES) ms)
                                   cfg_common pressure g = Inr True)
                      ((if ''phonon'' \<in> set ms then [Phonon] else [])
                       @ (if \<exists>m \<in> set ms. m \<in> set PROPERTY_MODULES then [Properties] else [])
                       @ (if ''md'' \<in> set ms then [Md] else []))
            \<and> (\<forall>prim. rr_primitive relax_res = Some prim \<and> path_exists env prim \<longrightarrow> src = prim)
            \<and> (rr_primitive relax_res = None
                 \<and> path_exists env (path_join work_dir ''POSCAR_relaxed'') \<longrightarrow>
                src = path_join work_dir ''POSCAR_relaxed'')
            \<and> ((\<forall>prim. rr_primitive relax_res = Some prim \<longrightarrow> \<not> path_exists env prim)
                 \<and> \<not> path_exists env (path_join work_dir ''POSCAR_relaxed'') \<longrightarrow>
                src = structure_file)))"
proof (intro conjI impI)
  assume "\<not> truthy (dict_get c ''submit'' (PBool False))"
  then have po: "truthy (dict_get cfg_common ''prepare_only'' (PBool True))"
    using prelude_prepare_only[OF assms(1)] by simp
  show "snd (run_combo_traced env sch (PList (map PStr ms)) structure_file work_dir pressure
                   (PDict c))
              = [RelaxCall structure_file]"
    unfolding snd_run_combo_traced combo_try_prepare_only[OF assms po] by simp
next
  assume "truthy (dict_get c ''submit'' (PBool False))"
  then have po: "\<not> truthy (dict_get cfg_common ''prepare_only'' (PBool True))"
    using prelude_prepare_only[OF assms(1)] by simp
  let ?cand = "case rr_primitive relax_res of Some prim \<Rightarrow> prim | None \<Rightarrow> rr_relaxed relax_res"
  let ?src = "if path_exists env ?cand then ?cand else structure_file"
  let ?groups = "(if ''phonon'' \<in> set ms then [Phonon] else [])
                       @ (if \<exists>m \<in> set ms. m \<in> set PROPERTY_MODULES then [Properties] else [])
                       @ (if ''md'' \<in> set ms then [Md] else [])"
  have pm: "property_modules = filter (\<lambda>m. m \<in> set PROPERTY_MODULES) ms"
    using prelude_strs[OF assms(1)] by simp
  have groups: "requested_groups need_phonon property_modules need_md = ?groups"
    using prelude_strs[OF assms(1)] by (auto simp: requested_groups_def filter_empty_conv)
  have relaxed: "rr_relaxed relax_res = path_join work_dir ''POSCAR_relaxed''"
    by (rule rr_relaxed_path[OF assms(2)])
  have calls: "snd (run_combo_traced env sch (PList (map PStr ms)) structure_file work_dir pressure
                     (PDict c))
                = RelaxCall structure_file # map (\<lambda>g. GroupCall g ?src) ?groups"
    unfolding snd_run_combo_traced combo_calls_launch[OF assms po] groups by (rule refl)
  have succ: "r_success (run_combo_pipeline env sch (PList (map PStr ms)) structure_file
                            work_dir pressure (PDict c))
                = list_all (\<lambda>g. run_group env ?src work_dir
                                   (filter (\<lambda>m. m \<in> set PROPERTY_MODULES) ms)
                                   cfg_common pressure g = Inr True) ?groups"
  proof -
    have "(\<forall>f \<in> set (as_completed 3 sch
                (map (run_group env ?src work_dir property_modules cfg_common pressure)
                   (requested_groups need_phonon property_modules need_md))). f = Inr True)
          = list_all (\<lambda>g. run_group env ?src work_dir property_modules cfg_common pressure g
                           = Inr True)
              (requested_groups need_phonon property_modules need_md)"
      by (simp add: set_as_completed list_all_iff)
    then show ?thesis
      unfolding run_combo_pipeline_def fst_run_combo_traced combo_try_fanout[OF assms po]
        fanout_success
      unfolding groups unfolding pm .
  qed
  have s1: "\<forall>prim. rr_primitive relax_res = Some prim \<and> path_exists env prim \<longrightarrow> ?src = prim"
    by simp
  have s2: "rr_primitive relax_res = None
                 \<and> path_exists env (path_join work_dir ''POSCAR_relaxed'') \<longrightarrow>
                ?src = path_join work_dir ''POSCAR_relaxed''"
    by (simp add: relaxed)
  have s3: "(\<forall>prim. rr_primitive relax_res = Some prim \<longrightarrow> \<not> path_exists env prim)
                 \<and> \<not> path_exists env (path_join work_dir ''POSCAR_relaxed'') \<longrightarrow>
                ?src = structure_file"
    by (cases "rr_primitive relax_res") (simp_all add: relaxed)
  from calls succ s1 s2 s3
  show "\<exists>src.
              snd (run_combo_traced env sch (PList (map PStr ms)) structure_file work_dir pressure
                     (PDict c))
                = RelaxCall structure_file # map (\<lambda>g. GroupCall g src) ?groups
            \<and> r_success (run_combo_pipeline env sch (PList (map PStr ms)) structure_file
                            work_dir pressure (PDict c))
                = list_all (\<lambda>g. run_group env src work_dir
                                   (filter (\<lambda>m. m \<in> set PROPERTY_MODULES) ms)
                                   cfg_common pressure g = Inr True) ?groups
            \<and> (\<forall>prim. rr_primitive relax_res = Some prim \<and> path_exists env prim \<longrightarrow> src = prim)
            \<and> (rr_primitive relax_res = None
                 \<and> path_exists env (path_join work_dir ''POSCAR_relaxed'') \<longrightarrow>
                src = path_join work_dir ''POSCAR_relaxed'')
            \<and> ((\<forall>prim. rr_primitive relax_res = Some prim \<longrightarrow> \<not> path_exists env prim)
                 \<and> \<not> path_exists env (path_join work_dir ''POSCAR_relaxed'') \<longrightarrow>
                src = structure_file)"
    by (intro exI[of _ ?src] conjI)
qed


theorem C5_downstream_groups_launched_witness:
  "combo_prelude primitive_env (PList (map PStr [''relax'', ''phonon'', ''dos'', ''md''])) ''w''
       (PDict [(''submit'', PBool True)]) = Inr (cfg0 False, True, [''dos''], True)
   \<and> run_relax_pipeline primitive_env ''a'' ''w'' (cfg0 False) 0
       = Inr \<lparr>rr_success = True, rr_relaxed = ''w/POSCAR_relaxed'',
              rr_primitive = Some ''w/POSCAR_prim'', rr_conventional = None\<rparr>
   \<and> path_exists primitive_env ''w/POSCAR_prim''
   \<and> snd (run_combo_traced primitive_env isch0
             (PList (map PStr [''relax'', ''phonon'', ''dos'', ''md''])) ''a'' ''w'' 0
             (PDict [(''submit'', PBool True)]))
       = [RelaxCall ''a'', GroupCall Phonon ''w/POSCAR_prim'',
          GroupCall Properties ''w/POSCAR_prim'', GroupCall Md ''w/POSCAR_prim'']
   \<and> r_success (run_combo_pipeline primitive_env isch0
             (PList (map PStr [''relax'', ''phonon'', ''dos'', ''md''])) ''a'' ''w'' 0
             (PDict [(''submit'', PBool True)]))
   \<and> run_relax_pipeline relaxed_env ''a'' ''w'' (cfg0 False) 0
       = Inr \<lparr>rr_success = True, rr_relaxed = ''w/POSCAR_relaxed'', rr_primitive = None,
              rr_conventional = None\<rparr>
   \<and> path_exists relaxed_env ''w/POSCAR_relaxed''
   \<and> snd (run_combo_traced relaxed_env isch0
             (PList (map PStr [''relax'', ''phonon'', ''dos'', ''md''])) ''a'' ''w'' 0
             (PDict [(''submit'', PBool True)]))
       = [RelaxCall ''a'', GroupCall Phonon ''w/POSCAR_relaxed'',
          GroupCall Properties ''w/POSCAR_relaxed'', GroupCall Md ''w/POSCAR_relaxed'']
   \<and> run_relax_pipeline env0 ''a'' ''w'' (cfg0 False) 0
       = Inr \<lparr>rr_success = True, rr_relaxed = ''w/POSCAR_relaxed'', rr_primitive = None,
              rr_conventional = None\<rparr>
   \<and> \<not> path_exists env0 ''w/POSCAR_relaxed''
   \<and> snd (run_combo_traced env0 isch0
             (PList (map PStr [''relax'', ''phonon'', ''dos'', ''md''])) ''a'' ''w'' 0
             (PDict [(''submit'', PBool True)]))
       = [RelaxCall ''a'', GroupCall Phonon ''a'', GroupCall Properties ''a'',
          GroupCall Md ''a'']
   \<and> combo_prelude env0 (PList (map PStr [''relax'', ''phonon'', ''dos'', ''md''])) ''w''
       (PDict []) = Inr (cfg0 True, True, [''dos''], True)
   \<and> run_relax_pipeline env0 ''a'' ''w'' (cfg0 True) 0
       = Inr \<lparr>rr_success = True, rr_relaxed = ''w/POSCAR_relaxed'', rr_primitive = None,
              rr_conventional = None\<rparr>
   \<and> snd (run_combo_traced env0 isch0
             (PList (map PStr [''relax'', ''phonon'', ''dos'', ''md''])) ''a'' ''w'' 0 (PDict []))
       = [RelaxCall ''a'']"
proof -
  let ?ms = "[''relax'', ''phonon'', ''dos'', ''md'']"
  have groups: "(if ''phonon'' \<in> set ?ms then [Phonon] else [])
        @ (if \<exists>m \<in> set ?ms. m \<in> set PROPERTY_MODULES then [Properties] else [])
        @ (if ''md'' \<in> set ?ms then [Md] else []) = [Phonon, Properties, Md]"
    by (simp add: PROPERTY_MODULES_def)
  have pm: "filter (\<lambda>m. m \<in> set PROPERTY_MODULES) ?ms = [''dos'']"
    by (simp add: PROPERTY_MODULES_def)
  have sub: "truthy (dict_get [(''submit'', PBool True)] ''submit'' (PBool False))"
       "\<not> truthy (dict_get [] ''submit'' (PBool False))"
    by (simp_all add: dict_get_def)
  have p1: "combo_prelude primitive_env (PList (map PStr ?ms)) ''w''
       (PDict [(''submit'', PBool True)]) = Inr (cfg0 False, True, [''dos''], True)"
    by code_simp
  have r1: "run_relax_pipeline primitive_env ''a'' ''w'' (cfg0 False) 0
       = Inr \<lparr>rr_success = True, rr_relaxed = ''w/POSCAR_relaxed'',
              rr_primitive = Some ''w/POSCAR_prim'', rr_conventional = None\<rparr>"
    by code_simp
  have e1: "path_exists primitive_env ''w/POSCAR_prim''"
    by (simp add: primitive_env_def)
  have g1: "list_all (\<lambda>g. run_group primitive_env ''w/POSCAR_prim'' ''w'' [''dos'']
                             (cfg0 False) 0 g = Inr True) [Phonon, Properties, Md]"
    by code_simp
  have p2: "combo_prelude relaxed_env (PList (map PStr ?ms)) ''w''
       (PDict [(''submit'', PBool True)]) = Inr (cfg0 False, True, [''dos''], True)"
    by code_simp
  have r2: "run_relax_pipeline relaxed_env ''a'' ''w'' (cfg0 False) 0
       = Inr \<lparr>rr_success = True, rr_relaxed = ''w/POSCAR_relaxed'', rr_primitive = None,
              rr_conventional = None\<rparr>"
    by code_simp
  have e2: "path_exists relaxed_env ''w/POSCAR_relaxed''"
    by (simp add: relaxed_env_def)
  have p3: "combo_prelude env0 (PList (map PStr ?ms)) ''w''
       (PDict [(''submit'', PBool True)]) = Inr (cfg0 False, True, [''dos''], True)"
    by code_simp
  have r3: "run_relax_pipeline env0 ''a'' ''w'' (cfg0 False) 0
       = Inr \<lparr>rr_success = True, rr_relaxed = ''w/POSCAR_relaxed'', rr_primitive = None,
              rr_conventional = None\<rparr>"
    by code_simp
  have e3: "\<not> path_exists env0 ''w/POSCAR_relaxed''"
    by (simp add: env0_def)
  have p4: "combo_prelude env0 (PList (map PStr ?ms)) ''w''
       (PDict []) = Inr (cfg0 True, True, [''dos''], True)"
    by code_simp
  have r4: "run_relax_pipeline env0 ''a'' ''w'' (cfg0 True) 0
       = Inr \<lparr>rr_success = True, rr_relaxed = ''w/POSCAR_relaxed'', rr_primitive = None,
              rr_conventional = None\<rparr>"
    by code_simp
  note i1 = C5_downstream_groups_launched[OF p1 r1, where sch = isch0, unfolded groups pm]
  note i2 = C5_downstream_groups_launched[OF p2 r2, where sch = isch0, unfolded groups pm]
  note i3 = C5_downstream_groups_launched[OF p3 r3, where sch = isch0, unfolded groups pm]
  note i4 = C5_downstream_groups_launched[OF p4 r4, where sch = isch0, unfolded groups pm]
  from i1 sub e1 g1
  have a1: "snd (run_combo_traced primitive_env isch0 (PList (map PStr ?ms)) ''a'' ''w'' 0
             (PDict [(''submit'', PBool True)]))
       = [RelaxCall ''a'', GroupCall Phonon ''w/POSCAR_prim'',
          GroupCall Properties ''w/POSCAR_prim'', GroupCall Md ''w/POSCAR_prim'']"
    and b1: "r_success (run_combo_pipeline primitive_env isch0 (PList (map PStr ?ms)) ''a'' ''w'' 0
             (PDict [(''submit'', PBool True)]))"
    by auto
  from i2 sub e2
  have a2: "snd (run_combo_traced relaxed_env isch0 (PList (map PStr ?ms)) ''a'' ''w'' 0
             (PDict [(''submit'', PBool True)]))
       = [RelaxCall ''a'', GroupCall Phonon ''w/POSCAR_relaxed'',
          GroupCall Properties ''w/POSCAR_relaxed'', GroupCall Md ''w/POSCAR_relaxed'']"
    by (auto simp: path_join_def)
  from i3 sub e3
  have a3: "snd (run_combo_traced env0 isch0 (PList (map PStr ?ms)) ''a'' ''w'' 0
             (PDict [(''submit'', PBool True)]))
       = [RelaxCall ''a'', GroupCall Phonon ''a'', GroupCall Properties ''a'',
          GroupCall Md ''a'']"
    by (auto simp: path_join_def)
  from i4 sub
  have a4: "snd (run_combo_traced env0 isch0 (PList (map PStr ?ms)) ''a'' ''w'' 0 (PDict []))
       = [RelaxCall ''a'']"
    by simp
  from p1 r1 e1 a1 b1 r2 e2 a2 r3 e3 a3 p4 r4 a4 show ?thesis
    by (intro conjI)
qed

text \<open>
  The one case the statement above leaves open: the relax pipeline records a primitive
  structure that is not on disk while \<open>POSCAR_relaxed\<close> is. The groups are then given the
  original structure file.
\<close>

lemma combo_missing_primitive:
  "run_relax_pipeline missing_primitive_env ''a'' ''w'' (cfg0 False) 0
       = Inr \<lparr>rr_success = True, rr_relaxed = ''w/POSCAR_relaxed'',
              rr_primitive = Some ''w/POSCAR_prim'', rr_conventional = None\<rparr>
   \<and> path_exists missing_primitive_env ''w/POSCAR_relaxed''
   \<and> \<not> path_exists missing_primitive_env ''w/POSCAR_prim''
   \<and> snd (run_combo_traced missing_primitive_env isch0 all_modules ''a'' ''w'' 0 submit_config)
       = [RelaxCall ''a'', GroupCall Phonon ''a'', GroupCall Properties ''a'',
          GroupCall Md ''a'']"
  by code_simp

text \<open>
  Claim C6. When the relax stage succeeds, the \<open>success\<close> of the combo task's record is
  the conjunction of the relax outcome and of the outcomes of all launched downstream
  groups (a group that raises counts as failed); and the groups launched are all the
  requested ones (none under \<open>prepare_only\<close>), whatever their outcomes: the failure of
  one group removes no sibling from the calls, and the executor waits for each of them
  before the task returns.
\<close>

theorem C6_combo_success_is_conjunction:
  assumes "combo_prelude env modules work_dir config
             = Inr (cfg_common, need_phonon, property_modules, need_md)"
    and "run_relax_pipeline env structure_file work_dir cfg_common pressure = Inr relax_res"
    and "rr_success relax_res"
  shows "r_success (run_combo_pipeline env sch modules structure_file work_dir pressure config)
       = (rr_success relax_res
          \<and> list_all (\<lambda>g. run_group env
                            (if path_exists env (case rr_primitive relax_res of
                                                   Some prim \<Rightarrow> prim
                                                 | None \<Rightarrow> rr_relaxed relax_res)
                             then (case rr_primitive relax_res of
                                     Some prim \<Rightarrow> prim
                                   | None \<Rightarrow> rr_relaxed relax_res)
                             else structure_file)
                            work_dir property_modules cfg_common pressure g = Inr True)
               (if truthy (dict_get cfg_common ''prepare_only'' (PBool True)) then []
                else requested_groups need_phonon property_modules need_md))
     \<and> snd (run_combo_traced env sch modules structure_file work_dir pressure config)
       = RelaxCall structure_file
         # map (\<lambda>g. GroupCall g
                   (if path_exists env (case rr_primitive relax_res of
                                          Some prim \<Rightarrow> prim
                                        | None \<Rightarrow> rr_relaxed relax_res)
                    then (case rr_primitive relax_res of
                            Some prim \<Rightarrow> prim
                          | None \<Rightarrow> rr_relaxed relax_res)
                    else structure_file))
             (if truthy (dict_get cfg_common ''prepare_only'' (PBool True)) then []
              else requested_groups need_phonon property_modules need_md)"
proof (cases "truthy (dict_get cfg_common ''prepare_only'' (PBool True))")
  case True
  show ?thesis
    using assms(3) True
    by (simp add: run_combo_pipeline_def run_combo_traced_def
        combo_try_prepare_only[OF assms True])
next
  case False
  have calls: "snd (run_combo_traced env sch modules structure_file work_dir pressure config)
       = RelaxCall structure_file
         # map (\<lambda>g. GroupCall g
                   (if path_exists env (case rr_primitive relax_res of
                                          Some prim \<Rightarrow> prim
                                        | None \<Rightarrow> rr_relaxed relax_res)
                    then (case rr_primitive relax_res of
                            Some prim \<Rightarrow> prim
                          | None \<Rightarrow> rr_relaxed relax_res)
                    else structure_file))
             (requested_groups need_phonon property_modules need_md)"
    unfolding snd_run_combo_traced by (rule combo_calls_launch[OF assms False])
  have succ: "r_success (run_combo_pipeline env sch modules structure_file work_dir pressure config)
       = list_all (\<lambda>g. run_group env
                            (if path_exists env (case rr_primitive relax_res of
                                                   Some prim \<Rightarrow> prim
                                                 | None \<Rightarrow> rr_relaxed relax_res)
                             then (case rr_primitive relax_res of
                                     Some prim \<Rightarrow> prim
                                   | None \<Rightarrow> rr_relaxed relax_res)
                             else structure_file)
                            work_dir property_modules cfg_common pressure g = Inr True)
               (requested_groups need_phonon property_modules need_md)"
    unfolding run_combo_pipeline_def fst_run_combo_traced combo_try_fanout[OF assms False]
      fanout_success
    by (simp add: set_as_completed list_all_iff)
  from calls succ assms(3) False show ?thesis by simp
qed

theorem C6_combo_success_is_conjunction_witness:
  "combo_prelude md_fails_env all_modules ''w'' submit_config
       = Inr (cfg0 False, True, [''dos''], True)
   \<and> run_relax_pipeline md_fails_env ''a'' ''w'' (cfg0 False) 0
       = Inr \<lparr>rr_success = True, rr_relaxed = ''w/POSCAR_relaxed'', rr_primitive = None,
              rr_conventional = None\<rparr>
   \<and> run_group md_fails_env ''a'' ''w'' [''dos''] (cfg0 False) 0 Phonon = Inr True
   \<and> run_group md_fails_env ''a'' ''w'' [''dos''] (cfg0 False) 0 Properties = Inr True
   \<and> run_group md_fails_env ''a'' ''w'' [''dos''] (cfg0 False) 0 Md = Inr False
   \<and> r_success (run_combo_pipeline md_fails_env isch0 all_modules ''a'' ''w'' 0 submit_config)
       = False
   \<and> snd (run_combo_traced md_fails_env isch0 all_modules ''a'' ''w'' 0 submit_config)
       = [RelaxCall ''a'', GroupCall Phonon ''a'', GroupCall Properties ''a'', GroupCall Md ''a'']"
proof -
  have p: "combo_prelude md_fails_env all_modules ''w'' submit_config
       = Inr (cfg0 False, True, [''dos''], True)"
    by code_simp
  have r: "run_relax_pipeline md_fails_env ''a'' ''w'' (cfg0 False) 0
       = Inr \<lparr>rr_success = True, rr_relaxed = ''w/POSCAR_relaxed'', rr_primitive = None,
              rr_conventional = None\<rparr>"
    by code_simp
  have g1: "run_group md_fails_env ''a'' ''w'' [''dos''] (cfg0 False) 0 Phonon = Inr True"
    by code_simp
  have g2: "run_group md_fails_env ''a'' ''w'' [''dos''] (cfg0 False) 0 Properties = Inr True"
    by code_simp
  have g3: "run_group md_fails_env ''a'' ''w'' [''dos''] (cfg0 False) 0 Md = Inr False"
    by code_simp
  have e: "\<not> path_exists md_fails_env ''w/POSCAR_relaxed''"
    by (simp add: md_fails_env_def env0_def)
  have po: "\<not> truthy (dict_get (cfg0 False) ''prepare_only'' (PBool True))"
    by (simp add: cfg0_def dict_get_def)
  from C6_combo_success_is_conjunction[OF p r, where sch = isch0] e po g1 g2 g3
  show ?thesis using p r by (simp add: requested_groups_def)
qed

section \<open>Exit codes\<close>

















section \<open>The k-point mesh\<close>

lemma mesh_number_ge: "mesh_number factor c kspacing = Inr n \<Longrightarrow> 1 \<le> n"
  by (auto simp: mesh_number_def py_bind_def split: sum.splits if_splits)

lemma mesh_try_ge:
  assumes "mesh_try env poscar_file kspacing = Inr (n1, n2, n3)"
  shows "1 \<le> n1 \<and> 1 \<le> n2 \<and> 1 \<le> n3"
proof -
  from assms obtain factor c1 c2 c3 where
    "mesh_number factor c1 kspacing = Inr n1"
    "mesh_number factor c2 kspacing = Inr n2"
    "mesh_number factor c3 kspacing = Inr n3"
    by (auto simp: mesh_try_def py_bind_Inr_iff Let_def split: if_splits prod.splits)
  then show ?thesis by (blast dest: mesh_number_ge)
qed

text \<open>
  Claim C10. For every POSCAR path and every \<open>kspacing\<close> (positive or not),
  \<open>kspacing_to_mesh\<close> returns three integers, each at least 1; and it returns
  \<open>(1, 1, 1)\<close>, raising nothing, whenever the file cannot be read or parsed into three
  scaled lattice vectors, and whenever the magnitude of the cell volume is below
  \<open>1e-8\<close>.
\<close>

theorem C10_mesh_at_least_one:
  "(case kspacing_to_mesh env poscar_file kspacing of
      (n1, n2, n3) \<Rightarrow> 1 \<le> n1 \<and> 1 \<le> n2 \<and> 1 \<le> n3)
   \<and> (parse_cell env poscar_file = Inl exc \<longrightarrow>
        kspacing_to_mesh env poscar_file kspacing = (1, 1, 1))
   \<and> (parse_cell env poscar_file = Inr (a1, a2, a3) \<and> cell_volume a1 a2 a3 = Inr vol
        \<and> \<bar>vol\<bar> < 1 / 10 ^ 8 \<longrightarrow>
        kspacing_to_mesh env poscar_file kspacing = (1, 1, 1))"
proof (intro conjI impI)
  show "case kspacing_to_mesh env poscar_file kspacing of
      (n1, n2, n3) \<Rightarrow> 1 \<le> n1 \<and> 1 \<le> n2 \<and> 1 \<le> n3"
  proof (cases "mesh_try env poscar_file kspacing")
    case (Inl exc)
    then show ?thesis by (simp add: kspacing_to_mesh_def)
  next
    case (Inr mesh)
    obtain n1 n2 n3 where m: "mesh = (n1, n2, n3)" by (cases mesh) auto
    with Inr mesh_try_ge[of env poscar_file kspacing n1 n2 n3] show ?thesis
      by (simp add: kspacing_to_mesh_def)
  qed
next
  assume "parse_cell env poscar_file = Inl exc"
  then show "kspacing_to_mesh env poscar_file kspacing = (1, 1, 1)"
    by (simp add: kspacing_to_mesh_def mesh_try_def py_bind_def)
next
  assume "parse_cell env poscar_file = Inr (a1, a2, a3) \<and> cell_volume a1 a2 a3 = Inr vol
        \<and> \<bar>vol\<bar> < 1 / 10 ^ 8"
  then show "kspacing_to_mesh env poscar_file kspacing = (1, 1, 1)"
    by (simp add: kspacing_to_mesh_def mesh_try_def py_bind_def)
qed

theorem C10_mesh_at_least_one_witness:
  "parse_cell no_file ''POSCAR'' = Inl (PyExc ''FileNotFoundError'' ''No such file or directory'')
   \<and> kspacing_to_mesh no_file ''POSCAR'' (2 / 10) = (1, 1, 1)
   \<and> parse_cell flat_cell ''POSCAR'' = Inr ([0, 0, 0], [0, 0, 0], [0, 0, 0])
   \<and> cell_volume [0, 0, 0] [0, 0, 0] [0, 0, 0] = Inr 0
   \<and> kspacing_to_mesh flat_cell ''POSCAR'' (2 / 10) = (1, 1, 1)"
proof -
  have p1: "parse_cell no_file ''POSCAR'' = Inl (PyExc ''FileNotFoundError'' ''No such file or directory'')"
    by (simp add: parse_cell_def no_file_def py_bind_def)
  have p2: "parse_cell flat_cell ''POSCAR'' = Inr ([0, 0, 0], [0, 0, 0], [0, 0, 0])"
    by (simp add: parse_cell_def flat_cell_def py_bind_def vector_of_line_def str_float_def)
  have v: "cell_volume [0, 0, 0] [0, 0, 0] [0, 0, 0] = Inr 0"
    by (simp add: cell_volume_def py_bind_def)
  from C10_mesh_at_least_one[where env = no_file and poscar_file = "''POSCAR''" and kspacing = "2 / 10"
      and exc = "PyExc ''FileNotFoundError'' ''No such file or directory''"] p1
  have k1: "kspacing_to_mesh no_file ''POSCAR'' (2 / 10) = (1, 1, 1)" by blast
  from C10_mesh_at_least_one[where env = flat_cell and poscar_file = "''POSCAR''" and kspacing = "2 / 10"
      and ?a1.0 = "[0, 0, 0]" and ?a2.0 = "[0, 0, 0]" and ?a3.0 = "[0, 0, 0]" and vol = 0] p2 v
  have k2: "kspacing_to_mesh flat_cell ''POSCAR'' (2 / 10) = (1, 1, 1)" by simp
  from p1 p2 v k1 k2 show ?thesis by simp
qed

section \<open>The summary report of a batch\<close>

text \<open>
  Claim C8 is right and the code misses it. The handler of \<open>_run_single_structure\<close>
  returns a record without the key \<open>work_dir\<close> when the working directory cannot be
  created (and so does the handler of \<open>_run_parallel\<close> when a worker process fails),
  while \<open>generate_summary_report\<close> reads \<open>result['work_dir']\<close> without a default,
  unlike \<open>energy\<close>, \<open>error\<close> and \<open>success\<close>. Here the directory of the first of two
  structures cannot be created: the report stops after the entry's first line with
  \<open>KeyError\<close>, and \<open>BatchPipeline.run\<close> raises instead of returning the results.
\<close>

theorem C8_summary_report_raises:
  "run_serial blocked_env batch0
     = [[(''structure_name'', PStr ''a''), (''structure_file'', PStr ''in/a.vasp''),
         (''success'', PBool False), (''error'', PStr ''File exists: w/a'')],
        [(''structure_name'', PStr ''b''), (''structure_file'', PStr ''in/b.vasp''),
         (''success'', PBool True), (''work_dir'', PStr ''w/b'')]]
   \<and> batch_run blocked_env isch0 batch0
     = (Inl (PyExc ''KeyError'' (quoted ''work_dir'')),
        [Rule, Title, Rule, Blank, TotalCount 2, SuccessCount 1, FailedCount 1, Blank,
         Rule, Details, Rule, Blank, Entry 1 (PStr ''a'')])"
  by code_simp

section \<open>Resuming a pipeline\<close>

lemma base_run_keeps_success:
  "base_run exec steps st = (True, st') \<Longrightarrow> checkpoint st s = Some SUCCESS \<Longrightarrow>
   checkpoint st' s = Some SUCCESS"
proof (induction steps arbitrary: st)
  case Nil
  then show ?case by simp
next
  case (Cons step steps)
  show ?case
  proof (cases "checkpoint st step = Some SUCCESS")
    case True
    with Cons.prems Cons.IH[of "st\<lparr>statuses := (statuses st)(step \<mapsto> SKIPPED)\<rparr>"] show ?thesis
      by simp
  next
    case False
    obtain r w where e: "exec step (world st) = (r, w)" by (cases "exec step (world st)") auto
    with False Cons.prems have ok: "r = Inr True"
      by (auto split: if_splits)
    with False e Cons.prems
      Cons.IH[of "st\<lparr>checkpoint := (checkpoint st)(step \<mapsto> SUCCESS),
                           statuses := (statuses st)(step \<mapsto> SUCCESS),
                           world := w,
                           executed := executed st @ [step]\<rparr>"]
    show ?thesis by (cases "s = step") simp_all
  qed
qed

lemma base_run_all_success:
  "base_run exec steps st = (True, st') \<Longrightarrow> \<forall>s \<in> set steps. checkpoint st' s = Some SUCCESS"
proof (induction steps arbitrary: st)
  case Nil
  then show ?case by simp
next
  case (Cons step steps)
  show ?case
  proof (cases "checkpoint st step = Some SUCCESS")
    case True
    with Cons.prems have r: "base_run exec steps (st\<lparr>statuses := (statuses st)(step \<mapsto> SKIPPED)\<rparr>) = (True, st')"
      by simp
    from base_run_keeps_success[OF r, of step] True have "checkpoint st' step = Some SUCCESS" by simp
    with Cons.IH[OF r] show ?thesis by simp
  next
    case False
    obtain r w where e: "exec step (world st) = (r, w)" by (cases "exec step (world st)") auto
    with False Cons.prems have ok: "r = Inr True"
      by (auto split: if_splits)
    with False e Cons.prems have r: "base_run exec steps
         (st\<lparr>checkpoint := (checkpoint st)(step \<mapsto> SUCCESS),
             statuses := (statuses st)(step \<mapsto> SUCCESS),
             world := w,
             executed := executed st @ [step]\<rparr>) = (True, st')"
      by simp
    from base_run_keeps_success[OF r, of step] have "checkpoint st' step = Some SUCCESS" by simp
    with Cons.IH[OF r] show ?thesis by simp
  qed
qed

lemma base_run_skips:
  "\<forall>s \<in> set steps. checkpoint st s = Some SUCCESS \<Longrightarrow>
   base_run exec steps st
     = (True, st\<lparr>statuses := (\<lambda>s. if s \<in> set steps then Some SKIPPED else statuses st s)\<rparr>)"
proof (induction steps arbitrary: st)
  case Nil
  then show ?case by simp
next
  case (Cons step steps)
  let ?st1 = "st\<lparr>statuses := (statuses st)(step \<mapsto> SKIPPED)\<rparr>"
  from Cons.prems have all: "\<forall>s \<in> set steps. checkpoint ?st1 s = Some SUCCESS" by simp
  have eq: "(\<lambda>s. if s \<in> set steps then Some SKIPPED else statuses ?st1 s)
      = (\<lambda>s. if s \<in> set (step # steps) then Some SKIPPED else statuses st s)"
    by (rule ext) simp
  from Cons.prems have "base_run exec (step # steps) st = base_run exec steps ?st1" by simp
  also have "\<dots> = (True, ?st1\<lparr>statuses := (\<lambda>s. if s \<in> set steps then Some SKIPPED
                                                 else statuses ?st1 s)\<rparr>)"
    by (rule Cons.IH[OF all])
  also have "\<dots> = (True, st\<lparr>statuses := (\<lambda>s. if s \<in> set (step # steps) then Some SKIPPED
                                                 else statuses st s)\<rparr>)"
    unfolding eq by simp
  finally show ?case .
qed

text \<open>
  Claim C9. When a run of the pipeline has returned \<open>True\<close> (every step \<open>SUCCESS\<close>, or
  skipped because the checkpoint already recorded \<open>SUCCESS\<close>), running it again, with
  any executors, returns \<open>True\<close> without invoking an executor: the list of invocations,
  the world the executors act on and the checkpoint are unchanged, and every step is
  marked \<open>SKIPPED\<close>.
\<close>

theorem C9_rerun_after_success_skips_all:
  assumes "base_run exec steps st = (True, st')"
  shows "\<exists>st''. base_run exec' steps st' = (True, st'')
     \<and> executed st'' = executed st'
     \<and> world st'' = world st'
     \<and> checkpoint st'' = checkpoint st'
     \<and> (\<forall>s \<in> set steps. statuses st'' s = Some SKIPPED)"
proof -
  from base_run_all_success[OF assms] have "\<forall>s \<in> set steps. checkpoint st' s = Some SUCCESS" .
  from base_run_skips[OF this, of exec'] show ?thesis by simp
qed

theorem C9_rerun_after_success_skips_all_witness:
  "base_run counting [''relax'', ''scf''] fresh_state = (True, done_state)
   \<and> fst (base_run counting [''relax'', ''scf''] done_state) = True
   \<and> executed (snd (base_run counting [''relax'', ''scf''] done_state)) = [''relax'', ''scf'']
   \<and> world (snd (base_run counting [''relax'', ''scf''] done_state)) = 2
   \<and> statuses (snd (base_run counting [''relax'', ''scf''] done_state)) ''relax'' = Some SKIPPED
   \<and> statuses (snd (base_run counting [''relax'', ''scf''] done_state)) ''scf'' = Some SKIPPED"
proof -
  have first: "base_run counting [''relax'', ''scf''] fresh_state = (True, done_state)"
    by (simp add: counting_def fresh_state_def done_state_def)
  from C9_rerun_after_success_skips_all[OF first, of counting]
  obtain st'' where
    "base_run counting [''relax'', ''scf''] done_state = (True, st'')"
    "executed st'' = executed done_state" "world st'' = world done_state"
    "\<forall>s \<in> set [''relax'', ''scf'']. statuses st'' s = Some SKIPPED"
    by blast
  with first show ?thesis by (simp add: done_state_def)
qed

section \<open>Prepare-only runs of the md pipeline\<close>











lemma normalize_loop_md:
  "set acc \<subseteq> {''md''} \<Longrightarrow> distinct acc \<Longrightarrow>
   set (normalize_loop strip_lower xs acc) \<subseteq> {''md''}
   \<and> distinct (normalize_loop strip_lower xs acc)"
proof (induction xs arbitrary: acc)
  case Nil
  then show ?case by simp
next
  case (Cons x xs)
  show ?case
  proof (cases "strip_lower x \<in> set [''md''] \<and> strip_lower x \<notin> set acc")
    case True
    with Cons.prems have "set (acc @ [strip_lower x]) \<subseteq> {''md''}" "distinct (acc @ [strip_lower x])"
      by auto
    from Cons.IH[OF this] True show ?thesis by auto
  next
    case False
    with Cons.IH[OF Cons.prems] show ?thesis by auto
  qed
qed

lemma only_md:
  fixes xs :: "string list"
  assumes "set xs \<subseteq> {''md''}" "distinct xs" "xs \<noteq> []"
  shows "xs = [''md'']"
proof -
  from assms obtain y ys where xs: "xs = y # ys" by (cases xs) auto
  with assms have y: "y = ''md''" by auto
  with assms xs have "set ys \<subseteq> {''md''}" "''md'' \<notin> set ys" by auto
  then have "ys = []" by (cases ys) auto
  with xs y show ?thesis by simp
qed

lemma get_steps_normalized:
  assumes "md_custom_steps self = normalize_steps strip_lower cs"
  shows "get_steps self = [''md'']"
proof (cases "normalize_steps strip_lower cs")
  case None
  with assms show ?thesis by (simp add: get_steps_def)
next
  case (Some steps)
  then have "steps = normalize_loop strip_lower (the cs) []" "steps \<noteq> []"
    by (auto simp: normalize_steps_def Let_def split: option.splits if_splits)
  with normalize_loop_md[of "[]" strip_lower "the cs"] have "steps = [''md'']"
    by (intro only_md) auto
  with assms Some show ?thesis by (simp add: get_steps_def)
qed






end
